theory Spec2Isabelle
  imports Main "HOL-Library.Word"
begin

section \<open>JavaScript values and the built-ins the adapter relies on\<close>

text \<open>
  The adapter moves untyped JSON between an MCP caller and an HTTP API. A value is
  modelled by \<open>jsval\<close>: \<open>JUndefined\<close> is JavaScript's \<open>undefined\<close> (what reading a missing
  property gives); \<open>JNum n\<close> is the integer \<open>sint n\<close>, which a 54-bit word keeps between
  \<open>-2^53\<close> and \<open>2^53 - 1\<close>, where every integer is a JavaScript number and is printed in
  plain decimal notation (fractions, NaN and the infinities are outside the model);
  \<open>JStr s\<close> is a string given by its UTF-8 bytes; \<open>JObj fs\<close> is a plain object, as
  \<open>JSON.parse\<close> or an object literal builds it, with its own properties listed in
  enumeration order: array indices first, in ascending order, then the other keys in the
  order of their creation.
\<close>

datatype jsval =
    JUndefined
  | JNull
  | JBool bool
  | JNum "54 word"
  | JStr string
  | JArr "jsval list"
  | JObj "(string \<times> jsval) list"

type_synonym fields = "(string \<times> jsval) list"

text \<open>Number to string, decimal.\<close>

definition digit_char :: "nat \<Rightarrow> char" where
  "digit_char n = ''0123456789'' ! (n mod 10)"

fun show_nat :: "nat \<Rightarrow> string" where
  "show_nat n = (if n < 10 then [digit_char n] else show_nat (n div 10) @ [digit_char n])"

declare show_nat.simps [simp del]

function show_digits :: "int \<Rightarrow> string" where
  "show_digits i =
     (if i < 10 then [digit_char (nat i)] else show_digits (i div 10) @ [digit_char (nat (i mod 10))])"
  by pat_completeness auto
termination
  by (relation "measure nat") auto

declare show_digits.simps [simp del]

definition show_int :: "int \<Rightarrow> string" where
  "show_int i = (if i < 0 then CHR ''-'' # show_digits (- i) else show_digits i)"

text \<open>\<open>Array.prototype.join\<close> on strings.\<close>

fun join_js :: "string \<Rightarrow> string list \<Rightarrow> string" where
  "join_js sep [] = []"
| "join_js sep [x] = x"
| "join_js sep (x # y # ys) = x @ sep @ join_js sep (y # ys)"

text \<open>
  \<open>String(v)\<close>, which is also what a template literal, \<open>new Error\<close> and
  \<open>encodeURIComponent\<close> do to a value. The result is \<open>None\<close> where JavaScript throws a
  \<open>TypeError\<close>: an object converts through its \<open>toString\<close>, and an own property of that
  name, which in a JSON value is never a function, hides the inherited one, after which
  \<open>valueOf\<close> gives no primitive either. An array joins the conversions of its elements,
  with nothing for \<open>undefined\<close> and \<open>null\<close>.
\<close>

fun all_some :: "'a option list \<Rightarrow> 'a list option" where
  "all_some [] = Some []"
| "all_some (None # xs) = None"
| "all_some (Some x # xs) = (case all_some xs of None \<Rightarrow> None | Some ys \<Rightarrow> Some (x # ys))"

fun String_js :: "jsval \<Rightarrow> string option" where
  "String_js JUndefined = Some ''undefined''"
| "String_js JNull = Some ''null''"
| "String_js (JBool b) = Some (if b then ''true'' else ''false'')"
| "String_js (JNum n) = Some (show_int (sint n))"
| "String_js (JStr s) = Some s"
| "String_js (JArr xs) =
     (case all_some (map (\<lambda>x. if x = JUndefined \<or> x = JNull then Some [] else String_js x) xs) of
        None \<Rightarrow> None
      | Some parts \<Rightarrow> Some (join_js '','' parts))"
| "String_js (JObj fs) =
     (if ''toString'' \<in> set (map fst fs) then None else Some ''[object Object]'')"

text \<open>Truthiness, as tested by \<open>if (v)\<close>, \<open>v && ...\<close> and \<open>v || ...\<close>.\<close>

fun truthy :: "jsval \<Rightarrow> bool" where
  "truthy JUndefined = False"
| "truthy JNull = False"
| "truthy (JBool b) = b"
| "truthy (JNum n) = (n \<noteq> 0)"
| "truthy (JStr s) = (s \<noteq> [])"
| "truthy (JArr xs) = True"
| "truthy (JObj fs) = True"

text \<open>The operator \<open>a ?? b\<close>, and a default parameter value \<open>(x = d)\<close>.\<close>

definition nullish :: "jsval \<Rightarrow> jsval \<Rightarrow> jsval" where
  "nullish a b = (if a = JUndefined \<or> a = JNull then b else a)"

definition default_param :: "jsval \<Rightarrow> jsval \<Rightarrow> jsval" where
  "default_param a d = (if a = JUndefined then d else a)"

text \<open>
  Objects. \<open>get_prop fs k\<close> is the property read \<open>o.k\<close>, for a key that the prototype of
  plain objects does not define; \<open>rest_without k fs\<close> is the rest object of
  \<open>const {k: _, ...rest} = o\<close>. \<open>obj_set k v fs\<close> defines the own property \<open>k\<close>, as a
  property of an object literal or a copied property of a spread does: an existing
  property keeps its place, a new array index goes to its place among the indices, any
  other new key goes last. \<open>obj_spread\<close> copies the properties of its second argument
  into the first, as \<open>{...a, ...b}\<close> does. An array index is the decimal text, without
  leading zeros, of a number up to \<open>2^32 - 2\<close>.
\<close>

definition get_prop :: "fields \<Rightarrow> string \<Rightarrow> jsval" where
  "get_prop fs k = (case map_of fs k of None \<Rightarrow> JUndefined | Some v \<Rightarrow> v)"

definition rest_without :: "string \<Rightarrow> fields \<Rightarrow> fields" where
  "rest_without k fs = filter (\<lambda>kv. fst kv \<noteq> k) fs"

definition digits_value :: "string \<Rightarrow> int" where
  "digits_value k = foldl (\<lambda>n c. 10 * n + (of_char c - 48)) 0 k"

definition array_index :: "string \<Rightarrow> int option" where
  "array_index k =
     (if k \<noteq> [] \<and> list_all (\<lambda>c. c \<in> set ''0123456789'') k \<and> (k = ''0'' \<or> hd k \<noteq> CHR ''0'')
         \<and> digits_value k \<le> 4294967294
      then Some (digits_value k) else None)"

fun insert_index :: "int \<Rightarrow> string \<Rightarrow> jsval \<Rightarrow> fields \<Rightarrow> fields" where
  "insert_index n k v [] = [(k, v)]"
| "insert_index n k v (p # ps) =
     (case array_index (fst p) of
        Some m \<Rightarrow> if m < n then p # insert_index n k v ps else (k, v) # p # ps
      | None \<Rightarrow> (k, v) # p # ps)"

definition obj_set :: "string \<Rightarrow> jsval \<Rightarrow> fields \<Rightarrow> fields" where
  "obj_set k v fs =
     (if k \<in> set (map fst fs) then map (\<lambda>p. if fst p = k then (k, v) else p) fs
      else (case array_index k of Some n \<Rightarrow> insert_index n k v fs | None \<Rightarrow> fs @ [(k, v)]))"

definition obj_spread :: "fields \<Rightarrow> fields \<Rightarrow> fields" where
  "obj_spread target src = foldl (\<lambda>acc kv. obj_set (fst kv) (snd kv) acc) target src"

text \<open>\<open>s.includes(sub)\<close>.\<close>

fun starts_with :: "string \<Rightarrow> string \<Rightarrow> bool" where
  "starts_with s [] = True"
| "starts_with [] (p # ps) = False"
| "starts_with (c # cs) (p # ps) = (c = p \<and> starts_with cs ps)"

fun includes_js :: "string \<Rightarrow> string \<Rightarrow> bool" where
  "includes_js [] sub = (sub = [])"
| "includes_js (c # cs) sub = (starts_with (c # cs) sub \<or> includes_js cs sub)"

text \<open>\<open>s.replace(/\/$/, '')\<close>: one slash at the very end of the string is removed.\<close>

definition strip_trailing_slash :: "string \<Rightarrow> string" where
  "strip_trailing_slash s = (if s \<noteq> [] \<and> last s = CHR ''/'' then butlast s else s)"

subsection \<open>Percent-encoding\<close>

text \<open>
  \<open>URLSearchParams\<close> serialises names and values with the
  application/x-www-form-urlencoded byte serialiser of the URL standard: letters, digits
  and \<open>* - . _\<close> stay, a space becomes \<open>+\<close>, every other byte becomes \<open>%HH\<close>.
  \<open>encodeURIComponent\<close> keeps letters, digits and \<open>- _ . ! ~ * ' ( )\<close> and escapes the rest.
\<close>

definition hex_digit :: "nat \<Rightarrow> char" where
  "hex_digit n = ''0123456789ABCDEF'' ! (n mod 16)"

definition percent_byte :: "char \<Rightarrow> string" where
  "percent_byte c = [CHR ''%'', hex_digit (of_char c div 16), hex_digit (of_char c)]"

definition alnum :: "char \<Rightarrow> bool" where
  "alnum c = (c \<in> set ''ABCDEFGHIJKLMNOPQRSTUVWXYZabcdefghijklmnopqrstuvwxyz0123456789'')"

definition urlencode_byte :: "char \<Rightarrow> string" where
  "urlencode_byte c =
     (if alnum c \<or> c \<in> set ''*-._'' then [c]
      else if c = CHR '' '' then ''+''
      else percent_byte c)"

definition urlencode :: "string \<Rightarrow> string" where
  "urlencode s = concat (map urlencode_byte s)"

definition urlencoded_serialize :: "(string \<times> string) list \<Rightarrow> string" where
  "urlencoded_serialize ps =
     join_js ''&'' (map (\<lambda>kv. urlencode (fst kv) @ ''='' @ urlencode (snd kv)) ps)"

definition encodeURIComponent :: "string \<Rightarrow> string" where
  "encodeURIComponent s =
     concat (map (\<lambda>c. if alnum c \<or> c \<in> set ''-_.!~*'' \<or> c = CHR 0x27 \<or> c \<in> set ''()''
                       then [c] else percent_byte c) s)"

subsection \<open>JSON.stringify\<close>

text \<open>
  \<open>json_ser gap ind v\<close> follows the standard's SerializeJSONProperty: \<open>gap\<close> is the
  indentation unit (empty for the compact form), \<open>ind\<close> the current indentation. The
  result is \<open>None\<close> where JavaScript gives \<open>undefined\<close>. A property whose value is
  \<open>undefined\<close> is left out of an object; in an array it is written \<open>null\<close>.
\<close>

definition JSON_quote_char :: "char \<Rightarrow> string" where
  "JSON_quote_char c =
     (if c = CHR 0x22 then [CHR 0x5C, CHR 0x22]
      else if c = CHR 0x5C then [CHR 0x5C, CHR 0x5C]
      else if c = CHR 0x08 then [CHR 0x5C, CHR ''b'']
      else if c = CHR 0x0C then [CHR 0x5C, CHR ''f'']
      else if c = CHR 0x0A then [CHR 0x5C, CHR ''n'']
      else if c = CHR 0x0D then [CHR 0x5C, CHR ''r'']
      else if c = CHR 0x09 then [CHR 0x5C, CHR ''t'']
      else if (of_char c :: nat) < 32 then
        [CHR 0x5C, CHR ''u'', CHR ''0'', CHR ''0'',
         ''0123456789abcdef'' ! (of_char c div 16), ''0123456789abcdef'' ! (of_char c mod 16)]
      else [c])"

definition JSON_quote :: "string \<Rightarrow> string" where
  "JSON_quote s = CHR 0x22 # concat (map JSON_quote_char s) @ [CHR 0x22]"

fun json_ser :: "string \<Rightarrow> string \<Rightarrow> jsval \<Rightarrow> string option" where
  "json_ser gap ind JUndefined = None"
| "json_ser gap ind JNull = Some ''null''"
| "json_ser gap ind (JBool b) = Some (if b then ''true'' else ''false'')"
| "json_ser gap ind (JNum n) = Some (show_int (sint n))"
| "json_ser gap ind (JStr s) = Some (JSON_quote s)"
| "json_ser gap ind (JArr xs) =
     (let partial = map (\<lambda>x. case json_ser gap (ind @ gap) x of None \<Rightarrow> ''null'' | Some s \<Rightarrow> s) xs
      in Some (if partial = [] then ''[]''
         else if gap = [] then ''['' @ join_js '','' partial @ '']''
         else ''['' @ [CHR 0x0A] @ ind @ gap @ join_js ('','' @ [CHR 0x0A] @ ind @ gap) partial
              @ [CHR 0x0A] @ ind @ '']''))"
| "json_ser gap ind (JObj fs) =
     (let partial = concat (map (\<lambda>(k, v). case json_ser gap (ind @ gap) v of None \<Rightarrow> []
                | Some s \<Rightarrow> [JSON_quote k @ (if gap = [] then '':'' else '': '') @ s]) fs)
      in Some (if partial = [] then ''{}''
         else if gap = [] then ''{'' @ join_js '','' partial @ ''}''
         else ''{'' @ [CHR 0x0A] @ ind @ gap @ join_js ('','' @ [CHR 0x0A] @ ind @ gap) partial
              @ [CHR 0x0A] @ ind @ ''}''))"

text \<open>\<open>JSON.stringify(v)\<close> and \<open>JSON.stringify(v, null, 2)\<close>.\<close>

definition JSON_stringify :: "jsval \<Rightarrow> string option" where
  "JSON_stringify v = json_ser [] [] v"

definition JSON_stringify_2 :: "jsval \<Rightarrow> string option" where
  "JSON_stringify_2 v = json_ser ''  '' [] v"

section \<open>Errors, the URL object and the world outside\<close>

text \<open>
  Every value thrown inside the call-tool handler is an \<open>Error\<close>: the \<open>Error\<close> the client
  builds, the \<open>TypeError\<close> of a failed conversion, of \<open>new URL\<close> and of \<open>fetch\<close>, the
  \<open>SyntaxError\<close> of \<open>response.json()\<close>, all given by their message, and the protocol
  SDK's \<open>McpError\<close> with the code and the message given to its constructor.
\<close>

datatype ErrorCode = MethodNotFound

datatype js_error =
    JsError string
  | McpError ErrorCode string

text \<open>
  A \<open>URL\<close> object: the serialised URL up to the end of the path, the query (without the
  question mark; \<open>None\<close> when the URL has none), the list behind \<open>url.searchParams\<close>, and
  the fragment with its \<open>#\<close>. \<open>searchParams.append\<close> adds a pair to the list and
  replaces the query by the serialisation of the whole list.
\<close>

record URL =
  url_prefix :: string
  url_query :: "string option"
  searchParams :: "(string \<times> string) list"
  url_hash :: string

definition searchParams_append :: "URL \<Rightarrow> string \<Rightarrow> string \<Rightarrow> URL" where
  "searchParams_append u k v =
     (let l = searchParams u @ [(k, v)]
      in u\<lparr>searchParams := l, url_query := Some (urlencoded_serialize l)\<rparr>)"

definition url_toString :: "URL \<Rightarrow> string" where
  "url_toString u =
     url_prefix u @ (case url_query u of None \<Rightarrow> [] | Some q \<Rightarrow> CHR ''?'' # q) @ url_hash u"

text \<open>What \<open>fetch\<close> is given, and what it resolves to.\<close>

record fetch_request =
  fr_url :: string
  fr_method :: string
  fr_headers :: "(string \<times> string) list"
  fr_body :: "string option"

record response =
  resp_status :: nat
  resp_statusText :: string
  resp_content_type :: "string option"
  resp_json :: "js_error + jsval"
  resp_text :: "js_error + string"

text \<open>\<open>response.ok\<close> is true exactly for the statuses 200 to 299.\<close>

definition response_ok :: "response \<Rightarrow> bool" where
  "response_ok r = (200 \<le> resp_status r \<and> resp_status r \<le> 299)"

text \<open>
  Everything the adapter calls but does not define is a parameter: the network behind
  \<open>fetch\<close> (which resolves to a response or rejects), the URL parser behind \<open>new URL\<close>
  (which returns a URL object or throws), the \<open>message\<close> property the SDK gives an
  \<open>McpError\<close> built from a code and a message, and the message the engine gives the
  \<open>TypeError\<close> of a value that cannot be converted to a string.
\<close>

record env =
  fetch :: "fetch_request \<Rightarrow> js_error + response"
  new_URL :: "string \<Rightarrow> js_error + URL"
  McpError_message :: "ErrorCode \<Rightarrow> string \<Rightarrow> string"
  TypeError_message :: string

text \<open>A conversion to a string inside the code: the text, or the \<open>TypeError\<close> thrown.\<close>

definition ToString :: "env \<Rightarrow> jsval \<Rightarrow> js_error + string" where
  "ToString E v =
     (case String_js v of None \<Rightarrow> Inl (JsError (TypeError_message E)) | Some s \<Rightarrow> Inr s)"

text \<open>
  What \<open>throw new Error(m)\<close> throws: the \<open>Error\<close> whose message is \<open>String(m)\<close> (empty
  when \<open>m\<close> is \<open>undefined\<close>), or the \<open>TypeError\<close> of the conversion.
\<close>

definition throw_new_Error :: "env \<Rightarrow> jsval \<Rightarrow> js_error" where
  "throw_new_Error E m =
     (if m = JUndefined then JsError []
      else (case ToString E m of Inl e \<Rightarrow> e | Inr s \<Rightarrow> JsError s))"

text \<open>
  The result of an asynchronous operation: the value it resolves to or the error it
  rejects with, and the requests it has handed to \<open>fetch\<close>, in order.
\<close>

type_synonym 'a outcome = "(js_error + 'a) \<times> fetch_request list"

section \<open>The transport client\<close>

text \<open>
  The configuration object as the entry point builds it: base URL, token, and the
  tenant identifier read from the environment (absent when the variable is unset).
\<close>

record NeventClientConfig =
  cfg_baseUrl :: string
  cfg_jwtToken :: string
  cfg_tenantId :: "string option"

record NeventClient =
  baseUrl :: string
  jwtToken :: string

definition NeventClient_new :: "NeventClientConfig \<Rightarrow> NeventClient" where
  "NeventClient_new config =
     \<lparr>baseUrl = strip_trailing_slash (cfg_baseUrl config), jwtToken = cfg_jwtToken config\<rparr>"

record ApiResponse =
  data :: jsval
  status :: nat
  ok :: bool

record request_options =
  body :: jsval
  params :: "fields option"

text \<open>
  The \<open>forEach\<close> over \<open>Object.entries(options.params)\<close>; a value that cannot be converted
  ends it with the \<open>TypeError\<close>.
\<close>

fun append_params :: "env \<Rightarrow> URL \<Rightarrow> fields \<Rightarrow> js_error + URL" where
  "append_params E url [] = Inr url"
| "append_params E url (kv # ps) =
     (if snd kv \<noteq> JUndefined
      then (case ToString E (snd kv) of
              Inl e \<Rightarrow> Inl e
            | Inr s \<Rightarrow> append_params E (searchParams_append url (fst kv) s) ps)
      else append_params E url ps)"

definition with_params :: "env \<Rightarrow> URL \<Rightarrow> fields option \<Rightarrow> js_error + URL" where
  "with_params E url ps = (case ps of None \<Rightarrow> Inr url | Some l \<Rightarrow> append_params E url l)"

definition request_headers :: "NeventClient \<Rightarrow> (string \<times> string) list" where
  "request_headers c =
     [(''Authorization'', ''Bearer '' @ jwtToken c), (''Content-Type'', ''application/json'')]"

definition fetchOptions :: "NeventClient \<Rightarrow> URL \<Rightarrow> string \<Rightarrow> request_options \<Rightarrow> fetch_request" where
  "fetchOptions c url method options =
     \<lparr>fr_url = url_toString url, fr_method = method, fr_headers = request_headers c,
      fr_body = (if truthy (body options) \<and> method \<noteq> ''GET''
                 then JSON_stringify (body options) else None)\<rparr>"

text \<open>Decoding the body: JSON when the content type says so, text otherwise.\<close>

definition decode_body :: "response \<Rightarrow> js_error + jsval" where
  "decode_body r =
     (if (case resp_content_type r of None \<Rightarrow> False | Some ct \<Rightarrow> includes_js ct ''application/json'')
      then resp_json r
      else (case resp_text r of Inl e \<Rightarrow> Inl e | Inr t \<Rightarrow> Inr (JStr t)))"

definition errorMessage :: "response \<Rightarrow> jsval \<Rightarrow> jsval" where
  "errorMessage r d =
     (let synthesized = JStr (''HTTP '' @ show_nat (resp_status r) @ '': '' @ resp_statusText r)
      in case d of
           JObj fs \<Rightarrow> (case map_of fs ''message'' of Some m \<Rightarrow> m | None \<Rightarrow> synthesized)
         | _ \<Rightarrow> synthesized)"

definition request ::
  "env \<Rightarrow> NeventClient \<Rightarrow> string \<Rightarrow> string \<Rightarrow> request_options \<Rightarrow> ApiResponse outcome" where
  "request E c method path options =
     (case new_URL E (baseUrl c @ path) of
        Inl e \<Rightarrow> (Inl e, [])
      | Inr url0 \<Rightarrow>
          (case with_params E url0 (params options) of
             Inl e \<Rightarrow> (Inl e, [])
           | Inr url \<Rightarrow>
               (let req = fetchOptions c url method options
                in case fetch E req of
                     Inl e \<Rightarrow> (Inl e, [req])
                   | Inr r \<Rightarrow>
                       (case decode_body r of
                          Inl e \<Rightarrow> (Inl e, [req])
                        | Inr d \<Rightarrow>
                            if \<not> response_ok r
                            then (Inl (throw_new_Error E (errorMessage r d)), [req])
                            else (Inr \<lparr>data = d, status = resp_status r, ok = response_ok r\<rparr>,
                                  [req])))))"

text \<open>The convenience methods return the decoded body only.\<close>

definition response_data :: "ApiResponse outcome \<Rightarrow> jsval outcome" where
  "response_data out = (case fst out of Inl e \<Rightarrow> (Inl e, snd out) | Inr r \<Rightarrow> (Inr (data r), snd out))"

definition client_get :: "env \<Rightarrow> NeventClient \<Rightarrow> string \<Rightarrow> fields option \<Rightarrow> jsval outcome" where
  "client_get E c path ps = response_data (request E c ''GET'' path \<lparr>body = JUndefined, params = ps\<rparr>)"

definition client_post :: "env \<Rightarrow> NeventClient \<Rightarrow> string \<Rightarrow> jsval \<Rightarrow> jsval outcome" where
  "client_post E c path b = response_data (request E c ''POST'' path \<lparr>body = b, params = None\<rparr>)"

definition client_put :: "env \<Rightarrow> NeventClient \<Rightarrow> string \<Rightarrow> jsval \<Rightarrow> jsval outcome" where
  "client_put E c path b = response_data (request E c ''PUT'' path \<lparr>body = b, params = None\<rparr>)"

definition client_patch :: "env \<Rightarrow> NeventClient \<Rightarrow> string \<Rightarrow> jsval \<Rightarrow> jsval outcome" where
  "client_patch E c path b = response_data (request E c ''PATCH'' path \<lparr>body = b, params = None\<rparr>)"

definition client_delete :: "env \<Rightarrow> NeventClient \<Rightarrow> string \<Rightarrow> jsval outcome" where
  "client_delete E c path =
     response_data (request E c ''DELETE'' path \<lparr>body = JUndefined, params = None\<rparr>)"

section \<open>The tool functions\<close>

text \<open>
  Each tool function makes one call to the client. An argument object whose properties
  the function reads is given by its property list; a value that is passed on as the
  request body is a \<open>jsval\<close>. A path is a template literal: \<open>with_string E v k\<close> converts
  the interpolated value and goes on with its text, or ends with the \<open>TypeError\<close> before
  anything is sent. The functions of the user module that no dispatch case calls are not
  needed here.
\<close>

definition with_string :: "env \<Rightarrow> jsval \<Rightarrow> (string \<Rightarrow> 'a outcome) \<Rightarrow> 'a outcome" where
  "with_string E v k = (case ToString E v of Inl e \<Rightarrow> (Inl e, []) | Inr s \<Rightarrow> k s)"

subsection \<open>Users\<close>

definition listUsers ::
  "env \<Rightarrow> NeventClient \<Rightarrow> fields \<Rightarrow> jsval outcome" where
  "listUsers E client ps =
     client_get E client ''/users''
       (Some [(''page'', nullish (get_prop ps ''page'') (JNum 0)),
              (''size'', nullish (get_prop ps ''size'') (JNum 20)),
              (''sort'', get_prop ps ''sort''),
              (''email'', get_prop ps ''email''),
              (''name'', get_prop ps ''name''),
              (''phone'', get_prop ps ''phone''),
              (''createdFrom'', get_prop ps ''createdFrom''),
              (''createdTo'', get_prop ps ''createdTo''),
              (''eventId'', get_prop ps ''eventId''),
              (''listId'', get_prop ps ''listId'')])"

definition getUser ::
  "env \<Rightarrow> NeventClient \<Rightarrow> jsval \<Rightarrow> jsval outcome" where
  "getUser E client userId =
     with_string E userId (\<lambda>s.
       client_get E client (''/users/'' @ s)
         None)"

definition getUserByEmail ::
  "env \<Rightarrow> NeventClient \<Rightarrow> jsval \<Rightarrow> jsval outcome" where
  "getUserByEmail E client email =
     with_string E email (\<lambda>s.
       client_get E client (''/users/email/'' @ encodeURIComponent s)
         None)"

definition createUser ::
  "env \<Rightarrow> NeventClient \<Rightarrow> jsval \<Rightarrow> jsval outcome" where
  "createUser E client userData =
     client_post E client ''/users''
       userData"

definition updateUser ::
  "env \<Rightarrow> NeventClient \<Rightarrow> jsval \<Rightarrow> jsval \<Rightarrow> jsval outcome" where
  "updateUser E client userId userData =
     with_string E userId (\<lambda>s.
       client_put E client (''/users/'' @ s)
         userData)"

definition deleteUser ::
  "env \<Rightarrow> NeventClient \<Rightarrow> jsval \<Rightarrow> jsval outcome" where
  "deleteUser E client userId =
     with_string E userId (\<lambda>s.
       client_delete E client (''/users/'' @ s))"

definition getUserPurchases ::
  "env \<Rightarrow> NeventClient \<Rightarrow> jsval \<Rightarrow> fields \<Rightarrow> jsval outcome" where
  "getUserPurchases E client userId ps =
     with_string E userId (\<lambda>s.
       client_get E client (''/users/'' @ s @ ''/purchases'')
         (Some [(''page'', nullish (get_prop ps ''page'') (JNum 0)),
                (''size'', nullish (get_prop ps ''size'') (JNum 20))]))"

definition getUserEvents ::
  "env \<Rightarrow> NeventClient \<Rightarrow> jsval \<Rightarrow> fields \<Rightarrow> jsval outcome" where
  "getUserEvents E client userId ps =
     with_string E userId (\<lambda>s.
       client_get E client (''/users/'' @ s @ ''/events'')
         (Some [(''page'', nullish (get_prop ps ''page'') (JNum 0)),
                (''size'', nullish (get_prop ps ''size'') (JNum 20)),
                (''type'', get_prop ps ''type'')]))"

definition getPropertyDefinitions ::
  "env \<Rightarrow> NeventClient \<Rightarrow> fields \<Rightarrow> jsval outcome" where
  "getPropertyDefinitions E client ps =
     client_get E client ''/properties''
       (Some [(''type'', get_prop ps ''type'')])"

definition createPropertyDefinition ::
  "env \<Rightarrow> NeventClient \<Rightarrow> jsval \<Rightarrow> jsval outcome" where
  "createPropertyDefinition E client property =
     client_post E client ''/properties''
       property"

definition getUserCommunicationPreferences ::
  "env \<Rightarrow> NeventClient \<Rightarrow> jsval \<Rightarrow> jsval outcome" where
  "getUserCommunicationPreferences E client userId =
     with_string E userId (\<lambda>s.
       client_get E client (''/users/'' @ s @ ''/communication-preferences'')
         None)"

definition updateUserCommunicationPreferences ::
  "env \<Rightarrow> NeventClient \<Rightarrow> jsval \<Rightarrow> jsval \<Rightarrow> jsval outcome" where
  "updateUserCommunicationPreferences E client userId preferences =
     with_string E userId (\<lambda>s.
       client_put E client (''/users/'' @ s @ ''/communication-preferences'')
         preferences)"

definition getUserCount ::
  "env \<Rightarrow> NeventClient \<Rightarrow> jsval outcome" where
  "getUserCount E client =
     client_get E client ''/users/count''
       None"

definition exportUsers ::
  "env \<Rightarrow> NeventClient \<Rightarrow> jsval \<Rightarrow> jsval outcome" where
  "exportUsers E client ps =
     client_post E client ''/users/export''
       ps"

subsection \<open>Campaigns, segments and templates\<close>

definition listCampaigns ::
  "env \<Rightarrow> NeventClient \<Rightarrow> fields \<Rightarrow> jsval outcome" where
  "listCampaigns E client ps =
     client_get E client ''/campaigns''
       (Some [(''page'', nullish (get_prop ps ''page'') (JNum 0)),
              (''size'', nullish (get_prop ps ''size'') (JNum 20)),
              (''sort'', get_prop ps ''sort''),
              (''type'', get_prop ps ''type''),
              (''status'', get_prop ps ''status'')])"

definition getCampaign ::
  "env \<Rightarrow> NeventClient \<Rightarrow> jsval \<Rightarrow> jsval outcome" where
  "getCampaign E client campaignId =
     with_string E campaignId (\<lambda>s.
       client_get E client (''/campaigns/'' @ s)
         None)"

definition createCampaign ::
  "env \<Rightarrow> NeventClient \<Rightarrow> jsval \<Rightarrow> jsval outcome" where
  "createCampaign E client campaign =
     client_post E client ''/campaigns''
       campaign"

definition updateCampaign ::
  "env \<Rightarrow> NeventClient \<Rightarrow> jsval \<Rightarrow> jsval \<Rightarrow> jsval outcome" where
  "updateCampaign E client campaignId campaign =
     with_string E campaignId (\<lambda>s.
       client_put E client (''/campaigns/'' @ s)
         campaign)"

definition deleteCampaign ::
  "env \<Rightarrow> NeventClient \<Rightarrow> jsval \<Rightarrow> jsval outcome" where
  "deleteCampaign E client campaignId =
     with_string E campaignId (\<lambda>s.
       client_delete E client (''/campaigns/'' @ s))"

definition sendCampaign ::
  "env \<Rightarrow> NeventClient \<Rightarrow> jsval \<Rightarrow> jsval outcome" where
  "sendCampaign E client campaignId =
     with_string E campaignId (\<lambda>s.
       client_post E client (''/campaigns/'' @ s @ ''/send'')
         JUndefined)"

definition scheduleCampaign ::
  "env \<Rightarrow> NeventClient \<Rightarrow> jsval \<Rightarrow> jsval \<Rightarrow> jsval outcome" where
  "scheduleCampaign E client campaignId scheduledAt =
     with_string E campaignId (\<lambda>s.
       client_post E client (''/campaigns/'' @ s @ ''/schedule'')
         (JObj [(''scheduledAt'', scheduledAt)]))"

definition pauseCampaign ::
  "env \<Rightarrow> NeventClient \<Rightarrow> jsval \<Rightarrow> jsval outcome" where
  "pauseCampaign E client campaignId =
     with_string E campaignId (\<lambda>s.
       client_post E client (''/campaigns/'' @ s @ ''/pause'')
         JUndefined)"

definition resumeCampaign ::
  "env \<Rightarrow> NeventClient \<Rightarrow> jsval \<Rightarrow> jsval outcome" where
  "resumeCampaign E client campaignId =
     with_string E campaignId (\<lambda>s.
       client_post E client (''/campaigns/'' @ s @ ''/resume'')
         JUndefined)"

definition cancelCampaign ::
  "env \<Rightarrow> NeventClient \<Rightarrow> jsval \<Rightarrow> jsval outcome" where
  "cancelCampaign E client campaignId =
     with_string E campaignId (\<lambda>s.
       client_post E client (''/campaigns/'' @ s @ ''/cancel'')
         JUndefined)"

definition getCampaignMetrics ::
  "env \<Rightarrow> NeventClient \<Rightarrow> jsval \<Rightarrow> jsval outcome" where
  "getCampaignMetrics E client campaignId =
     with_string E campaignId (\<lambda>s.
       client_get E client (''/campaigns/'' @ s @ ''/metrics'')
         None)"

definition sendTestCampaign ::
  "env \<Rightarrow> NeventClient \<Rightarrow> jsval \<Rightarrow> jsval \<Rightarrow> jsval outcome" where
  "sendTestCampaign E client campaignId testEmails =
     with_string E campaignId (\<lambda>s.
       client_post E client (''/campaigns/'' @ s @ ''/test'')
         (JObj [(''emails'', testEmails)]))"

definition duplicateCampaign ::
  "env \<Rightarrow> NeventClient \<Rightarrow> jsval \<Rightarrow> jsval outcome" where
  "duplicateCampaign E client campaignId =
     with_string E campaignId (\<lambda>s.
       client_post E client (''/campaigns/'' @ s @ ''/duplicate'')
         JUndefined)"

definition listSegments ::
  "env \<Rightarrow> NeventClient \<Rightarrow> fields \<Rightarrow> jsval outcome" where
  "listSegments E client ps =
     client_get E client ''/segments''
       (Some [(''page'', nullish (get_prop ps ''page'') (JNum 0)),
              (''size'', nullish (get_prop ps ''size'') (JNum 20)),
              (''sort'', get_prop ps ''sort'')])"

definition getSegment ::
  "env \<Rightarrow> NeventClient \<Rightarrow> jsval \<Rightarrow> jsval outcome" where
  "getSegment E client segmentId =
     with_string E segmentId (\<lambda>s.
       client_get E client (''/segments/'' @ s)
         None)"

definition createSegment ::
  "env \<Rightarrow> NeventClient \<Rightarrow> jsval \<Rightarrow> jsval outcome" where
  "createSegment E client segment =
     client_post E client ''/segments''
       segment"

definition updateSegment ::
  "env \<Rightarrow> NeventClient \<Rightarrow> jsval \<Rightarrow> jsval \<Rightarrow> jsval outcome" where
  "updateSegment E client segmentId segment =
     with_string E segmentId (\<lambda>s.
       client_put E client (''/segments/'' @ s)
         segment)"

definition deleteSegment ::
  "env \<Rightarrow> NeventClient \<Rightarrow> jsval \<Rightarrow> jsval outcome" where
  "deleteSegment E client segmentId =
     with_string E segmentId (\<lambda>s.
       client_delete E client (''/segments/'' @ s))"

definition previewSegment ::
  "env \<Rightarrow> NeventClient \<Rightarrow> jsval \<Rightarrow> jsval outcome" where
  "previewSegment E client criteria =
     client_post E client ''/segments/preview''
       criteria"

definition executeSegment ::
  "env \<Rightarrow> NeventClient \<Rightarrow> jsval \<Rightarrow> jsval outcome" where
  "executeSegment E client segmentId =
     with_string E segmentId (\<lambda>s.
       client_post E client (''/segments/'' @ s @ ''/execute'')
         JUndefined)"

definition listEmailTemplates ::
  "env \<Rightarrow> NeventClient \<Rightarrow> fields \<Rightarrow> jsval outcome" where
  "listEmailTemplates E client ps =
     client_get E client ''/templates/email''
       (Some [(''page'', nullish (get_prop ps ''page'') (JNum 0)),
              (''size'', nullish (get_prop ps ''size'') (JNum 20)),
              (''sort'', get_prop ps ''sort'')])"

definition getEmailTemplate ::
  "env \<Rightarrow> NeventClient \<Rightarrow> jsval \<Rightarrow> jsval outcome" where
  "getEmailTemplate E client templateId =
     with_string E templateId (\<lambda>s.
       client_get E client (''/templates/email/'' @ s)
         None)"

definition createEmailTemplate ::
  "env \<Rightarrow> NeventClient \<Rightarrow> jsval \<Rightarrow> jsval outcome" where
  "createEmailTemplate E client template =
     client_post E client ''/templates/email''
       template"

definition updateEmailTemplate ::
  "env \<Rightarrow> NeventClient \<Rightarrow> jsval \<Rightarrow> jsval \<Rightarrow> jsval outcome" where
  "updateEmailTemplate E client templateId template =
     with_string E templateId (\<lambda>s.
       client_put E client (''/templates/email/'' @ s)
         template)"

definition deleteEmailTemplate ::
  "env \<Rightarrow> NeventClient \<Rightarrow> jsval \<Rightarrow> jsval outcome" where
  "deleteEmailTemplate E client templateId =
     with_string E templateId (\<lambda>s.
       client_delete E client (''/templates/email/'' @ s))"

definition renderEmailTemplate ::
  "env \<Rightarrow> NeventClient \<Rightarrow> jsval \<Rightarrow> jsval outcome" where
  "renderEmailTemplate E client templateId =
     with_string E templateId (\<lambda>s.
       client_get E client (''/templates/email/'' @ s @ ''/render'')
         None)"

definition generateEmailContent ::
  "env \<Rightarrow> NeventClient \<Rightarrow> jsval \<Rightarrow> fields \<Rightarrow> jsval outcome" where
  "generateEmailContent E client prompt options =
     client_post E client ''/campaigns/generate''
       (JObj (obj_spread [(''prompt'', prompt)] options))"

subsection \<open>Performers, sessions and lineups\<close>

definition createPerformer ::
  "env \<Rightarrow> NeventClient \<Rightarrow> jsval \<Rightarrow> jsval outcome" where
  "createPerformer E client d =
     client_post E client ''/admin/performers''
       d"

definition searchSpotify ::
  "env \<Rightarrow> NeventClient \<Rightarrow> jsval \<Rightarrow> jsval \<Rightarrow> jsval outcome" where
  "searchSpotify E client query limit =
     client_get E client ''/admin/performers/spotify/search''
       (Some [(''query'', query), (''limit'', default_param limit (JNum 10))])"

definition searchPerformers ::
  "env \<Rightarrow> NeventClient \<Rightarrow> jsval \<Rightarrow> jsval \<Rightarrow> jsval outcome" where
  "searchPerformers E client query limit =
     client_get E client ''/admin/performers/search''
       (Some [(''query'', query), (''limit'', default_param limit (JNum 10))])"

definition linkPerformerSpotify ::
  "env \<Rightarrow> NeventClient \<Rightarrow> jsval \<Rightarrow> jsval \<Rightarrow> jsval outcome" where
  "linkPerformerSpotify E client performerId d =
     with_string E performerId (\<lambda>s.
       client_post E client (''/admin/performers/'' @ s @ ''/link-spotify'')
         d)"

definition unlinkPerformerFromMaster ::
  "env \<Rightarrow> NeventClient \<Rightarrow> jsval \<Rightarrow> jsval outcome" where
  "unlinkPerformerFromMaster E client performerId =
     with_string E performerId (\<lambda>s.
       client_post E client (''/admin/performers/'' @ s @ ''/unlink-master'')
         JUndefined)"

definition updatePerformer ::
  "env \<Rightarrow> NeventClient \<Rightarrow> jsval \<Rightarrow> jsval \<Rightarrow> jsval outcome" where
  "updatePerformer E client performerId d =
     with_string E performerId (\<lambda>s.
       client_patch E client (''/admin/performers/'' @ s)
         d)"

definition getPerformer ::
  "env \<Rightarrow> NeventClient \<Rightarrow> jsval \<Rightarrow> jsval \<Rightarrow> jsval outcome" where
  "getPerformer E client performerId includeMaster =
     with_string E performerId (\<lambda>s.
       client_get E client (''/admin/performers/'' @ s)
         (Some [(''includeMaster'', default_param includeMaster (JBool False))]))"

definition listPerformers ::
  "env \<Rightarrow> NeventClient \<Rightarrow> fields \<Rightarrow> jsval outcome" where
  "listPerformers E client ps =
     client_get E client ''/admin/performers''
       (Some [(''page'', nullish (get_prop ps ''page'') (JNum 0)),
              (''size'', nullish (get_prop ps ''size'') (JNum 20)),
              (''sort'', get_prop ps ''sort'')])"

definition deletePerformer ::
  "env \<Rightarrow> NeventClient \<Rightarrow> jsval \<Rightarrow> jsval outcome" where
  "deletePerformer E client performerId =
     with_string E performerId (\<lambda>s.
       client_delete E client (''/admin/performers/'' @ s))"

definition createPerformerFromMaster ::
  "env \<Rightarrow> NeventClient \<Rightarrow> jsval \<Rightarrow> jsval outcome" where
  "createPerformerFromMaster E client masterPerformerId =
     with_string E masterPerformerId (\<lambda>s.
       client_post E client (''/admin/performers/from-master-performer/'' @ s)
         JUndefined)"

definition getPerformerLikes ::
  "env \<Rightarrow> NeventClient \<Rightarrow> jsval \<Rightarrow> fields \<Rightarrow> jsval outcome" where
  "getPerformerLikes E client performerId ps =
     with_string E performerId (\<lambda>s.
       client_get E client (''/admin/performers/'' @ s @ ''/likes'')
         (Some [(''page'', nullish (get_prop ps ''page'') (JNum 0)),
                (''size'', nullish (get_prop ps ''size'') (JNum 20))]))"

definition listEventSessions ::
  "env \<Rightarrow> NeventClient \<Rightarrow> jsval \<Rightarrow> fields \<Rightarrow> jsval outcome" where
  "listEventSessions E client eventId ps =
     with_string E eventId (\<lambda>s.
       client_get E client (''/admin/events/'' @ s @ ''/sessions'')
         (Some [(''date'', get_prop ps ''date''),
                (''stage'', get_prop ps ''stage''),
                (''isPublished'', get_prop ps ''isPublished'')]))"

definition createSession ::
  "env \<Rightarrow> NeventClient \<Rightarrow> jsval \<Rightarrow> fields \<Rightarrow> jsval outcome" where
  "createSession E client eventId d =
     with_string E eventId (\<lambda>s.
       client_post E client (''/admin/events/'' @ s @ ''/sessions'')
         (JObj (obj_set ''eventId'' eventId (obj_spread [] d))))"

definition updateSession ::
  "env \<Rightarrow> NeventClient \<Rightarrow> jsval \<Rightarrow> jsval \<Rightarrow> jsval outcome" where
  "updateSession E client sessionId d =
     with_string E sessionId (\<lambda>s.
       client_patch E client (''/admin/sessions/'' @ s)
         d)"

definition getSession ::
  "env \<Rightarrow> NeventClient \<Rightarrow> jsval \<Rightarrow> jsval outcome" where
  "getSession E client sessionId =
     with_string E sessionId (\<lambda>s.
       client_get E client (''/admin/sessions/'' @ s)
         None)"

definition deleteSession ::
  "env \<Rightarrow> NeventClient \<Rightarrow> jsval \<Rightarrow> jsval outcome" where
  "deleteSession E client sessionId =
     with_string E sessionId (\<lambda>s.
       client_delete E client (''/admin/sessions/'' @ s))"

definition addPerformerToSession ::
  "env \<Rightarrow> NeventClient \<Rightarrow> jsval \<Rightarrow> jsval \<Rightarrow> jsval outcome" where
  "addPerformerToSession E client sessionId d =
     with_string E sessionId (\<lambda>s.
       client_post E client (''/admin/sessions/'' @ s @ ''/performers'')
         d)"

definition removePerformerFromSession ::
  "env \<Rightarrow> NeventClient \<Rightarrow> jsval \<Rightarrow> jsval \<Rightarrow> jsval outcome" where
  "removePerformerFromSession E client sessionId performerId =
     with_string E sessionId (\<lambda>s1.
       with_string E performerId (\<lambda>s2.
         client_delete E client (''/admin/sessions/'' @ s1 @ ''/performers/'' @ s2)))"

definition reorderSessionPerformers ::
  "env \<Rightarrow> NeventClient \<Rightarrow> jsval \<Rightarrow> jsval \<Rightarrow> jsval outcome" where
  "reorderSessionPerformers E client sessionId newOrders =
     with_string E sessionId (\<lambda>s.
       client_put E client (''/admin/sessions/'' @ s @ ''/performers/reorder'')
         newOrders)"

definition publishSession ::
  "env \<Rightarrow> NeventClient \<Rightarrow> jsval \<Rightarrow> jsval \<Rightarrow> jsval outcome" where
  "publishSession E client sessionId isPublished =
     with_string E sessionId (\<lambda>s.
       client_patch E client (''/admin/sessions/'' @ s @ ''/publish'')
         (JObj [(''isPublished'', isPublished)]))"

definition getPublicLineup ::
  "env \<Rightarrow> NeventClient \<Rightarrow> jsval \<Rightarrow> jsval outcome" where
  "getPublicLineup E client eventId =
     with_string E eventId (\<lambda>s.
       client_get E client (''/public/events/'' @ s @ ''/lineup'')
         None)"

definition getAdminLineup ::
  "env \<Rightarrow> NeventClient \<Rightarrow> jsval \<Rightarrow> jsval outcome" where
  "getAdminLineup E client eventId =
     with_string E eventId (\<lambda>s.
       client_get E client (''/admin/events/'' @ s @ ''/lineup'')
         None)"

definition createOrUpdateDailyLineup ::
  "env \<Rightarrow> NeventClient \<Rightarrow> jsval \<Rightarrow> jsval \<Rightarrow> jsval outcome" where
  "createOrUpdateDailyLineup E client eventId d =
     with_string E eventId (\<lambda>s.
       client_post E client (''/events/'' @ s @ ''/daily-lineup'')
         d)"

definition getAllDailyLineups ::
  "env \<Rightarrow> NeventClient \<Rightarrow> jsval \<Rightarrow> jsval outcome" where
  "getAllDailyLineups E client eventId =
     with_string E eventId (\<lambda>s.
       client_get E client (''/events/'' @ s @ ''/daily-lineup'')
         None)"

definition getDailyLineupByDate ::
  "env \<Rightarrow> NeventClient \<Rightarrow> jsval \<Rightarrow> jsval \<Rightarrow> jsval outcome" where
  "getDailyLineupByDate E client eventId date =
     with_string E eventId (\<lambda>s1.
       with_string E date (\<lambda>s2.
         client_get E client (''/events/'' @ s1 @ ''/daily-lineup/'' @ s2)
           None))"

definition updateDailyLineup ::
  "env \<Rightarrow> NeventClient \<Rightarrow> jsval \<Rightarrow> jsval \<Rightarrow> jsval \<Rightarrow> jsval outcome" where
  "updateDailyLineup E client eventId date d =
     with_string E eventId (\<lambda>s1.
       with_string E date (\<lambda>s2.
         client_put E client (''/events/'' @ s1 @ ''/daily-lineup/'' @ s2)
           d))"

definition publishDailyLineup ::
  "env \<Rightarrow> NeventClient \<Rightarrow> jsval \<Rightarrow> jsval \<Rightarrow> jsval outcome" where
  "publishDailyLineup E client eventId date =
     with_string E eventId (\<lambda>s1.
       with_string E date (\<lambda>s2.
         client_put E client (''/events/'' @ s1 @ ''/daily-lineup/'' @ s2 @ ''/publish'')
           JUndefined))"

definition unpublishDailyLineup ::
  "env \<Rightarrow> NeventClient \<Rightarrow> jsval \<Rightarrow> jsval \<Rightarrow> jsval outcome" where
  "unpublishDailyLineup E client eventId date =
     with_string E eventId (\<lambda>s1.
       with_string E date (\<lambda>s2.
         client_put E client (''/events/'' @ s1 @ ''/daily-lineup/'' @ s2 @ ''/unpublish'')
           JUndefined))"

definition deleteDailyLineup ::
  "env \<Rightarrow> NeventClient \<Rightarrow> jsval \<Rightarrow> jsval \<Rightarrow> jsval outcome" where
  "deleteDailyLineup E client eventId date =
     with_string E eventId (\<lambda>s1.
       with_string E date (\<lambda>s2.
         client_delete E client (''/events/'' @ s1 @ ''/daily-lineup/'' @ s2)))"

section \<open>The tool catalog and the dispatcher\<close>

text \<open>
  The catalog returned by a list-tools request. An entry is represented by its name;
  the description and the input schema are data for the caller and decide nothing here.
\<close>

definition userToolDefinitions :: "string list" where
  "userToolDefinitions =
     [''list_users'', ''get_user'', ''get_user_by_email'', ''create_user'', ''update_user'',
      ''delete_user'', ''get_user_purchases'', ''get_user_events'', ''get_property_definitions'',
      ''create_property_definition'', ''get_user_communication_preferences'',
      ''update_user_communication_preferences'', ''get_user_count'', ''export_users'']"

definition campaignToolDefinitions :: "string list" where
  "campaignToolDefinitions =
     [''list_campaigns'', ''get_campaign'', ''create_campaign'', ''update_campaign'',
      ''delete_campaign'', ''send_campaign'', ''schedule_campaign'', ''pause_campaign'',
      ''cancel_campaign'', ''get_campaign_metrics'', ''send_test_campaign'',
      ''duplicate_campaign'', ''list_segments'', ''get_segment'', ''create_segment'',
      ''update_segment'', ''delete_segment'', ''preview_segment'', ''execute_segment'',
      ''list_email_templates'', ''get_email_template'', ''create_email_template'',
      ''update_email_template'', ''delete_email_template'', ''render_email_template'',
      ''generate_email_content'']"

definition lineupToolDefinitions :: "string list" where
  "lineupToolDefinitions =
     [''create_performer'', ''search_spotify'', ''search_performers'', ''link_performer_spotify'',
      ''unlink_performer_from_master'', ''update_performer'', ''get_performer'',
      ''list_performers'', ''delete_performer'', ''create_performer_from_master'',
      ''get_performer_likes'', ''list_event_sessions'', ''create_session'', ''update_session'',
      ''get_session'', ''delete_session'', ''add_performer_to_session'',
      ''remove_performer_from_session'', ''reorder_session_performers'', ''publish_session'',
      ''get_public_lineup'', ''get_admin_lineup'', ''create_or_update_daily_lineup'',
      ''get_all_daily_lineups'', ''get_daily_lineup_by_date'', ''update_daily_lineup'',
      ''publish_daily_lineup'', ''unpublish_daily_lineup'', ''delete_daily_lineup'']"

definition allToolDefinitions :: "string list" where
  "allToolDefinitions = userToolDefinitions @ campaignToolDefinitions @ lineupToolDefinitions"

text \<open>
  The \<open>switch\<close> of the call-tool handler, one entry per \<open>case\<close> label in the order of the
  source: the label and what the case does with the client and the argument object.
  The labels are pairwise different, so looking a name up in this list selects the case
  the \<open>switch\<close> selects.
\<close>

type_synonym tool_case = "env \<Rightarrow> NeventClient \<Rightarrow> fields \<Rightarrow> jsval outcome"

definition user_cases :: "(string \<times> tool_case) list" where
  "user_cases =
     [(''list_users'', \<lambda>E client toolArgs.
         listUsers E client toolArgs),
      (''get_user'', \<lambda>E client toolArgs.
         getUser E client (get_prop toolArgs ''userId'')),
      (''get_user_by_email'', \<lambda>E client toolArgs.
         getUserByEmail E client (get_prop toolArgs ''email'')),
      (''create_user'', \<lambda>E client toolArgs.
         createUser E client (JObj toolArgs)),
      (''update_user'', \<lambda>E client toolArgs.
         updateUser E client (get_prop toolArgs ''userId'')
           (JObj (rest_without ''userId'' toolArgs))),
      (''delete_user'', \<lambda>E client toolArgs.
         deleteUser E client (get_prop toolArgs ''userId'')),
      (''get_user_purchases'', \<lambda>E client toolArgs.
         getUserPurchases E client (get_prop toolArgs ''userId'')
           [(''page'', get_prop toolArgs ''page''), (''size'', get_prop toolArgs ''size'')]),
      (''get_user_events'', \<lambda>E client toolArgs.
         getUserEvents E client (get_prop toolArgs ''userId'')
           [(''page'', get_prop toolArgs ''page''), (''size'', get_prop toolArgs ''size''), (''type'', get_prop toolArgs ''type'')]),
      (''get_property_definitions'', \<lambda>E client toolArgs.
         getPropertyDefinitions E client toolArgs),
      (''create_property_definition'', \<lambda>E client toolArgs.
         createPropertyDefinition E client (JObj toolArgs)),
      (''get_user_communication_preferences'', \<lambda>E client toolArgs.
         getUserCommunicationPreferences E client (get_prop toolArgs ''userId'')),
      (''update_user_communication_preferences'', \<lambda>E client toolArgs.
         updateUserCommunicationPreferences E client (get_prop toolArgs ''userId'')
           (JObj (rest_without ''userId'' toolArgs))),
      (''get_user_count'', \<lambda>E client toolArgs.
         getUserCount E client),
      (''export_users'', \<lambda>E client toolArgs.
         exportUsers E client (JObj toolArgs))]"

definition campaign_cases :: "(string \<times> tool_case) list" where
  "campaign_cases =
     [(''list_campaigns'', \<lambda>E client toolArgs.
         listCampaigns E client toolArgs),
      (''get_campaign'', \<lambda>E client toolArgs.
         getCampaign E client (get_prop toolArgs ''campaignId'')),
      (''create_campaign'', \<lambda>E client toolArgs.
         createCampaign E client (JObj toolArgs)),
      (''update_campaign'', \<lambda>E client toolArgs.
         updateCampaign E client (get_prop toolArgs ''campaignId'')
           (JObj (rest_without ''campaignId'' toolArgs))),
      (''delete_campaign'', \<lambda>E client toolArgs.
         deleteCampaign E client (get_prop toolArgs ''campaignId'')),
      (''send_campaign'', \<lambda>E client toolArgs.
         sendCampaign E client (get_prop toolArgs ''campaignId'')),
      (''schedule_campaign'', \<lambda>E client toolArgs.
         scheduleCampaign E client (get_prop toolArgs ''campaignId'')
           (get_prop toolArgs ''scheduledAt'')),
      (''pause_campaign'', \<lambda>E client toolArgs.
         pauseCampaign E client (get_prop toolArgs ''campaignId'')),
      (''cancel_campaign'', \<lambda>E client toolArgs.
         cancelCampaign E client (get_prop toolArgs ''campaignId'')),
      (''get_campaign_metrics'', \<lambda>E client toolArgs.
         getCampaignMetrics E client (get_prop toolArgs ''campaignId'')),
      (''send_test_campaign'', \<lambda>E client toolArgs.
         sendTestCampaign E client (get_prop toolArgs ''campaignId'')
           (get_prop toolArgs ''testEmails'')),
      (''duplicate_campaign'', \<lambda>E client toolArgs.
         duplicateCampaign E client (get_prop toolArgs ''campaignId'')),
      (''list_segments'', \<lambda>E client toolArgs.
         listSegments E client toolArgs),
      (''get_segment'', \<lambda>E client toolArgs.
         getSegment E client (get_prop toolArgs ''segmentId'')),
      (''create_segment'', \<lambda>E client toolArgs.
         createSegment E client (JObj toolArgs)),
      (''update_segment'', \<lambda>E client toolArgs.
         updateSegment E client (get_prop toolArgs ''segmentId'')
           (JObj (rest_without ''segmentId'' toolArgs))),
      (''delete_segment'', \<lambda>E client toolArgs.
         deleteSegment E client (get_prop toolArgs ''segmentId'')),
      (''preview_segment'', \<lambda>E client toolArgs.
         previewSegment E client (get_prop toolArgs ''criteria'')),
      (''execute_segment'', \<lambda>E client toolArgs.
         executeSegment E client (get_prop toolArgs ''segmentId'')),
      (''list_email_templates'', \<lambda>E client toolArgs.
         listEmailTemplates E client toolArgs),
      (''get_email_template'', \<lambda>E client toolArgs.
         getEmailTemplate E client (get_prop toolArgs ''templateId'')),
      (''create_email_template'', \<lambda>E client toolArgs.
         createEmailTemplate E client (JObj toolArgs)),
      (''update_email_template'', \<lambda>E client toolArgs.
         updateEmailTemplate E client (get_prop toolArgs ''templateId'')
           (JObj (rest_without ''templateId'' toolArgs))),
      (''delete_email_template'', \<lambda>E client toolArgs.
         deleteEmailTemplate E client (get_prop toolArgs ''templateId'')),
      (''render_email_template'', \<lambda>E client toolArgs.
         renderEmailTemplate E client (get_prop toolArgs ''templateId'')),
      (''generate_email_content'', \<lambda>E client toolArgs.
         generateEmailContent E client (get_prop toolArgs ''prompt'')
           (rest_without ''prompt'' toolArgs))]"

definition lineup_cases :: "(string \<times> tool_case) list" where
  "lineup_cases =
     [(''create_performer'', \<lambda>E client toolArgs.
         createPerformer E client (JObj toolArgs)),
      (''search_spotify'', \<lambda>E client toolArgs.
         searchSpotify E client (get_prop toolArgs ''query'') (get_prop toolArgs ''limit'')),
      (''search_performers'', \<lambda>E client toolArgs.
         searchPerformers E client (get_prop toolArgs ''query'') (get_prop toolArgs ''limit'')),
      (''link_performer_spotify'', \<lambda>E client toolArgs.
         linkPerformerSpotify E client (get_prop toolArgs ''performerId'')
           (JObj [(''spotifyId'', get_prop toolArgs ''spotifyId''), (''overrideData'', get_prop toolArgs ''overrideData'')])),
      (''unlink_performer_from_master'', \<lambda>E client toolArgs.
         unlinkPerformerFromMaster E client (get_prop toolArgs ''performerId'')),
      (''update_performer'', \<lambda>E client toolArgs.
         updatePerformer E client (get_prop toolArgs ''performerId'')
           (JObj (rest_without ''performerId'' toolArgs))),
      (''get_performer'', \<lambda>E client toolArgs.
         getPerformer E client (get_prop toolArgs ''performerId'')
           (get_prop toolArgs ''includeMaster'')),
      (''list_performers'', \<lambda>E client toolArgs.
         listPerformers E client
           [(''page'', get_prop toolArgs ''page''), (''size'', get_prop toolArgs ''size''), (''sort'', get_prop toolArgs ''sort'')]),
      (''delete_performer'', \<lambda>E client toolArgs.
         deletePerformer E client (get_prop toolArgs ''performerId'')),
      (''create_performer_from_master'', \<lambda>E client toolArgs.
         createPerformerFromMaster E client (get_prop toolArgs ''masterPerformerId'')),
      (''get_performer_likes'', \<lambda>E client toolArgs.
         getPerformerLikes E client (get_prop toolArgs ''performerId'')
           [(''page'', get_prop toolArgs ''page''), (''size'', get_prop toolArgs ''size'')]),
      (''list_event_sessions'', \<lambda>E client toolArgs.
         listEventSessions E client (get_prop toolArgs ''eventId'')
           [(''date'', get_prop toolArgs ''date''), (''stage'', get_prop toolArgs ''stage''), (''isPublished'', get_prop toolArgs ''isPublished'')]),
      (''create_session'', \<lambda>E client toolArgs.
         createSession E client (get_prop toolArgs ''eventId'')
           (rest_without ''eventId'' toolArgs)),
      (''update_session'', \<lambda>E client toolArgs.
         updateSession E client (get_prop toolArgs ''sessionId'')
           (JObj (rest_without ''sessionId'' toolArgs))),
      (''get_session'', \<lambda>E client toolArgs.
         getSession E client (get_prop toolArgs ''sessionId'')),
      (''delete_session'', \<lambda>E client toolArgs.
         deleteSession E client (get_prop toolArgs ''sessionId'')),
      (''add_performer_to_session'', \<lambda>E client toolArgs.
         addPerformerToSession E client (get_prop toolArgs ''sessionId'')
           (JObj [(''performerId'', get_prop toolArgs ''performerId''), (''displayOrder'', get_prop toolArgs ''displayOrder''), (''notes'', get_prop toolArgs ''notes'')])),
      (''remove_performer_from_session'', \<lambda>E client toolArgs.
         removePerformerFromSession E client (get_prop toolArgs ''sessionId'')
           (get_prop toolArgs ''performerId'')),
      (''reorder_session_performers'', \<lambda>E client toolArgs.
         reorderSessionPerformers E client (get_prop toolArgs ''sessionId'')
           (get_prop toolArgs ''newOrders'')),
      (''publish_session'', \<lambda>E client toolArgs.
         publishSession E client (get_prop toolArgs ''sessionId'')
           (get_prop toolArgs ''isPublished'')),
      (''get_public_lineup'', \<lambda>E client toolArgs.
         getPublicLineup E client (get_prop toolArgs ''eventId'')),
      (''get_admin_lineup'', \<lambda>E client toolArgs.
         getAdminLineup E client (get_prop toolArgs ''eventId'')),
      (''create_or_update_daily_lineup'', \<lambda>E client toolArgs.
         createOrUpdateDailyLineup E client (get_prop toolArgs ''eventId'')
           (JObj [(''date'', get_prop toolArgs ''date''), (''performerIds'', get_prop toolArgs ''performerIds''), (''displayOrder'', get_prop toolArgs ''displayOrder'')])),
      (''get_all_daily_lineups'', \<lambda>E client toolArgs.
         getAllDailyLineups E client (get_prop toolArgs ''eventId'')),
      (''get_daily_lineup_by_date'', \<lambda>E client toolArgs.
         getDailyLineupByDate E client (get_prop toolArgs ''eventId'')
           (get_prop toolArgs ''date'')),
      (''update_daily_lineup'', \<lambda>E client toolArgs.
         updateDailyLineup E client (get_prop toolArgs ''eventId'')
           (get_prop toolArgs ''date'')
           (JObj [(''date'', get_prop toolArgs ''date''), (''performerIds'', get_prop toolArgs ''performerIds''), (''displayOrder'', get_prop toolArgs ''displayOrder'')])),
      (''publish_daily_lineup'', \<lambda>E client toolArgs.
         publishDailyLineup E client (get_prop toolArgs ''eventId'')
           (get_prop toolArgs ''date'')),
      (''unpublish_daily_lineup'', \<lambda>E client toolArgs.
         unpublishDailyLineup E client (get_prop toolArgs ''eventId'')
           (get_prop toolArgs ''date'')),
      (''delete_daily_lineup'', \<lambda>E client toolArgs.
         deleteDailyLineup E client (get_prop toolArgs ''eventId'')
           (get_prop toolArgs ''date''))]"

definition switch_cases :: "(string \<times> tool_case) list" where
  "switch_cases = user_cases @ campaign_cases @ lineup_cases"

text \<open>The \<open>switch\<close> with its \<open>default\<close>, which throws before any call to the client.\<close>

definition switch_name :: "env \<Rightarrow> NeventClient \<Rightarrow> string \<Rightarrow> fields \<Rightarrow> jsval outcome" where
  "switch_name E client nm toolArgs =
     (case map_of switch_cases nm of
        Some run \<Rightarrow> run E client toolArgs
      | None \<Rightarrow> (Inl (McpError MethodNotFound (''Unknown tool: '' @ nm)), []))"

text \<open>
  The call-tool handler. The request carries a name and, optionally, an argument
  object. The reply has a list of content items and an optional error flag; the text
  of an item is \<open>None\<close> where \<open>JSON.stringify\<close> gives \<open>undefined\<close>. The handler's result is
  an outcome like any other, so that an error leaving the handler would show as \<open>Inl\<close>.
\<close>

record CallToolRequest =
  name :: string
  arguments :: "fields option"

record content_item =
  item_type :: string
  item_text :: "string option"

record reply =
  content :: "content_item list"
  isError :: "bool option"

text \<open>
  \<open>error instanceof Error ? error.message : String(error)\<close>. Whatever is caught is an
  \<open>Error\<close>, so the first arm is the one taken.
\<close>

definition catch_message :: "env \<Rightarrow> js_error \<Rightarrow> string" where
  "catch_message E error =
     (case error of
        JsError m \<Rightarrow> m
      | McpError code m \<Rightarrow> McpError_message E code m)"

definition handler :: "env \<Rightarrow> NeventClient \<Rightarrow> CallToolRequest \<Rightarrow> reply outcome" where
  "handler E client req =
     (let toolArgs = (case arguments req of None \<Rightarrow> [] | Some args \<Rightarrow> args);
          tried = switch_name E client (name req) toolArgs
      in case fst tried of
           Inr result \<Rightarrow>
             (Inr \<lparr>content = [\<lparr>item_type = ''text'', item_text = JSON_stringify_2 result\<rparr>],
                   isError = None\<rparr>, snd tried)
         | Inl error \<Rightarrow>
             (Inr \<lparr>content = [\<lparr>item_type = ''text'',
                                 item_text = Some (''Error: '' @ catch_message E error)\<rparr>],
                   isError = Some True\<rparr>, snd tried))"

section \<open>Vocabulary for the properties\<close>

text \<open>
  A query string is read back by cutting it at every \<open>&\<close>; the name of a field is what
  stands before its first \<open>=\<close>.
\<close>

fun split_on :: "char \<Rightarrow> string \<Rightarrow> string list" where
  "split_on d [] = [[]]"
| "split_on d (c # cs) =
     (if c = d then [] # split_on d cs
      else (case split_on d cs of [] \<Rightarrow> [[c]] | x # xs \<Rightarrow> (c # x) # xs))"



definition defined_pairs :: "fields \<Rightarrow> (string \<times> string) list" where
  "defined_pairs ps =
     concat (map (\<lambda>kv. case String_js (snd kv) of None \<Rightarrow> [] | Some s \<Rightarrow> [(fst kv, s)])
                 (filter (\<lambda>kv. snd kv \<noteq> JUndefined) ps))"


text \<open>
  A parsed URL without a query of its own, and an argument object that leaves out each
  of the listed properties.
\<close>

definition bare :: "URL \<Rightarrow> bool" where
  "bare u = (url_query u = None \<and> searchParams u = [])"

definition omits :: "fields \<Rightarrow> string list \<Rightarrow> bool" where
  "omits args ks = list_all (\<lambda>k. k \<notin> set (map fst args)) ks"




text \<open>
  A simulated world for the examples. Its \<open>new URL\<close> takes what follows the first \<open>#\<close>
  as the fragment and what follows the first \<open>?\<close> before it as the query, whose fields
  it reads by cutting at \<open>&\<close> and \<open>=\<close>; on the strings of the examples, which need no
  escaping, that is what the parser of the URL standard does. The server answers every
  request with the same response, an \<open>McpError\<close> shows its code before its message, and
  the engine's \<open>TypeError\<close> has the message of Node.js.
\<close>

definition query_pairs :: "string \<Rightarrow> (string \<times> string) list" where
  "query_pairs q =
     map (\<lambda>f. (takeWhile (\<lambda>c. c \<noteq> CHR ''='') f, drop 1 (dropWhile (\<lambda>c. c \<noteq> CHR ''='') f)))
         (filter (\<lambda>f. f \<noteq> []) (split_on CHR ''&'' q))"

definition simple_URL :: "string \<Rightarrow> js_error + URL" where
  "simple_URL s =
     (let before_hash = takeWhile (\<lambda>c. c \<noteq> CHR ''#'') s;
          q = (if CHR ''?'' \<in> set before_hash
               then Some (drop 1 (dropWhile (\<lambda>c. c \<noteq> CHR ''?'') before_hash)) else None)
      in Inr \<lparr>url_prefix = takeWhile (\<lambda>c. c \<noteq> CHR ''?'') before_hash,
              url_query = q,
              searchParams = (case q of None \<Rightarrow> [] | Some t \<Rightarrow> query_pairs t),
              url_hash = dropWhile (\<lambda>c. c \<noteq> CHR ''#'') s\<rparr>)"

definition json_response :: "nat \<Rightarrow> string \<Rightarrow> jsval \<Rightarrow> response" where
  "json_response st st_text d =
     \<lparr>resp_status = st, resp_statusText = st_text,
      resp_content_type = Some ''application/json; charset=utf-8'',
      resp_json = Inr d,
      resp_text = Inr (case JSON_stringify d of None \<Rightarrow> [] | Some t \<Rightarrow> t)\<rparr>"

definition server_env :: "response \<Rightarrow> env" where
  "server_env r =
     \<lparr>fetch = (\<lambda>req. Inr r), new_URL = simple_URL,
      McpError_message = (\<lambda>code m. ''MCP error -32601: '' @ m),
      TypeError_message = ''Cannot convert object to primitive value''\<rparr>"

definition example_config :: NeventClientConfig where
  "example_config =
     \<lparr>cfg_baseUrl = ''https://api.nevent.io/'', cfg_jwtToken = ''jwt'', cfg_tenantId = Some ''acme''\<rparr>"

definition example_client :: NeventClient where
  "example_client = NeventClient_new example_config"

text \<open>A text between double quotes, for writing down expected JSON.\<close>

definition dquote :: "string \<Rightarrow> string" where
  "dquote s = CHR 0x22 # s @ [CHR 0x22]"

section \<open>Facts about the built-ins\<close>



















lemma json_ser_None: "json_ser gap ind v = None \<longleftrightarrow> v = JUndefined"
  by (cases v) (simp_all add: Let_def)

lemma includes_js_self: "includes_js s s"
proof -
  have "starts_with t t" for t by (induction t) simp_all
  then show ?thesis by (cases s) simp_all
qed

lemma includes_js_suffix: "includes_js (p @ s) s"
  by (induction p) (simp_all add: includes_js_self)


lemma get_prop_Nil: "get_prop [] k = JUndefined"
  by (simp add: get_prop_def)

lemma get_prop_Cons: "get_prop ((k', v) # fs) k = (if k = k' then v else get_prop fs k)"
  by (simp add: get_prop_def)

lemma get_prop_append:
  "get_prop (args @ extra) k = (case map_of args k of None \<Rightarrow> get_prop extra k | Some v \<Rightarrow> v)"
  by (simp add: get_prop_def map_add_def split: option.splits)

lemma get_prop_absent: "k \<notin> fst ` set args \<Longrightarrow> get_prop args k = JUndefined"
  by (simp add: get_prop_def map_of_eq_None_iff [THEN iffD2])

lemma get_prop_default:
  assumes "k \<notin> fst ` set args"
  shows "get_prop (args @ [(k, d)]) k' = (if k' = k then d else get_prop args k')"
  using assms
  by (auto simp: get_prop_append get_prop_def map_of_eq_None_iff [THEN iffD2]
           split: option.splits)

lemma rest_without_keys: "k \<notin> fst ` set (rest_without k args)"
  by (auto simp: rest_without_def)

lemma map_of_insert_index:
  "k \<notin> fst ` set fs \<Longrightarrow> map_of (insert_index n k v fs) k = Some v"
  by (induction fs) (auto split: option.splits)

lemma get_prop_obj_set: "get_prop (obj_set k v fs) k = v"
proof (cases "k \<in> set (map fst fs)")
  case True
  then have "map_of (map (\<lambda>p. if fst p = k then (k, v) else p) fs) k = Some v"
    by (induction fs) auto
  with True show ?thesis by (simp add: obj_set_def get_prop_def)
next
  case False
  then have "k \<notin> fst ` set fs" by simp
  then show ?thesis
    using map_of_insert_index [of k fs _ v] False
    by (auto simp: obj_set_def get_prop_def map_of_eq_None_iff [THEN iffD2] split: option.splits)
qed

section \<open>Facts about the client\<close>

lemma defined_pairs_Nil: "defined_pairs [] = []"
  by (simp add: defined_pairs_def)

lemma defined_pairs_Cons:
  "defined_pairs (kv # ps) =
     (if snd kv = JUndefined then defined_pairs ps
      else (case String_js (snd kv) of
              None \<Rightarrow> defined_pairs ps
            | Some s \<Rightarrow> (fst kv, s) # defined_pairs ps))"
  by (simp add: defined_pairs_def split: option.splits)

lemma append_params_Inr:
  "append_params E u ps = Inr url \<Longrightarrow>
   url_prefix url = url_prefix u \<and> url_hash url = url_hash u
   \<and> searchParams url = searchParams u @ defined_pairs ps
   \<and> url_query url =
       (if defined_pairs ps = [] then url_query u
        else Some (urlencoded_serialize (searchParams u @ defined_pairs ps)))
   \<and> (\<forall>kv \<in> set ps. snd kv \<noteq> JUndefined \<longrightarrow> String_js (snd kv) \<noteq> None)"
proof (induction ps arbitrary: u)
  case Nil
  then show ?case by (simp add: defined_pairs_Nil)
next
  case (Cons kv ps)
  show ?case
  proof (cases "snd kv = JUndefined")
    case True
    with Cons.prems have "append_params E u ps = Inr url" by simp
    from Cons.IH [OF this] True show ?thesis by (simp add: defined_pairs_Cons)
  next
    case False
    with Cons.prems obtain s where s: "String_js (snd kv) = Some s"
      and rest: "append_params E (searchParams_append u (fst kv) s) ps = Inr url"
      by (auto simp: ToString_def split: option.splits sum.splits)
    from Cons.IH [OF rest] False s show ?thesis
      by (simp add: defined_pairs_Cons searchParams_append_def Let_def)
  qed
qed

lemma append_params_ok:
  "\<forall>kv \<in> set ps. snd kv \<noteq> JUndefined \<longrightarrow> String_js (snd kv) \<noteq> None \<Longrightarrow>
   \<exists>url. append_params E u ps = Inr url"
  by (induction ps arbitrary: u) (auto simp: ToString_def split: option.splits)

lemma append_params_Inl:
  "append_params E u ps = Inl e \<Longrightarrow>
   \<exists>k v. (k, v) \<in> set ps \<and> v \<noteq> JUndefined \<and> String_js v = None"
proof (induction ps arbitrary: u)
  case Nil
  then show ?case by simp
next
  case (Cons kv ps)
  then show ?case
    by (cases kv) (fastforce simp: ToString_def split: option.splits if_splits)
qed

lemma request_log:
  "new_URL E (baseUrl c @ path) = Inr u \<Longrightarrow> with_params E u (params options) = Inr url \<Longrightarrow>
   snd (request E c method path options) = [fetchOptions c url method options]"
  by (simp add: request_def Let_def split: sum.splits)

lemma request_not_sent:
  "new_URL E (baseUrl c @ path) = Inr u \<Longrightarrow> with_params E u (params options) = Inl e \<Longrightarrow>
   request E c method path options = (Inl e, [])"
  by (simp add: request_def)

lemma request_sent:
  "snd (request E c method path options) = [q] \<Longrightarrow>
   \<exists>u url. new_URL E (baseUrl c @ path) = Inr u \<and> with_params E u (params options) = Inr url
     \<and> q = fetchOptions c url method options"
  by (auto simp: request_def Let_def split: sum.splits if_splits)


lemma request_result:
  assumes "snd (request E c method path options) = [q]"
    and "fetch E q = Inr r"
    and "decode_body r = Inr d"
  shows "fst (request E c method path options) =
      (if \<not> response_ok r then Inl (throw_new_Error E (errorMessage r d))
       else Inr \<lparr>data = d, status = resp_status r, ok = response_ok r\<rparr>)"
  using assms by (auto simp: request_def Let_def split: sum.splits if_splits)

section \<open>The request operation\<close>







text \<open>
  Claim C1, amended. For every response that \<open>request\<close> receives and whose body decodes:
  with a status from 200 to 299 the request returns the decoded body, the status and
  \<open>ok = true\<close>; with any other status it fails. When the body is an object that has a
  \<open>message\<close> property, the message of the error is that property converted to a
  string: the string itself, the text of a number, of a boolean or of \<open>null\<close>, and so on
  for whatever \<open>String\<close> converts; a property that cannot be converted makes the request
  fail with the engine's \<open>TypeError\<close>. Otherwise the message is
  \<open>HTTP <status>: <statusText>\<close>.
\<close>

theorem response_handling:
  assumes sent: "snd (request E c method path options) = [q]"
    and resp: "fetch E q = Inr r"
    and dec: "decode_body r = Inr d"
  shows "(200 \<le> resp_status r \<and> resp_status r \<le> 299 \<longrightarrow>
            fst (request E c method path options) =
              Inr \<lparr>data = d, status = resp_status r, ok = True\<rparr>)
       \<and> (\<not> (200 \<le> resp_status r \<and> resp_status r \<le> 299) \<longrightarrow>
            (\<forall>fs s. d = JObj fs \<and> map_of fs ''message'' = Some (JStr s) \<longrightarrow>
               fst (request E c method path options) = Inl (JsError s))
          \<and> (\<forall>fs m s. d = JObj fs \<and> map_of fs ''message'' = Some m \<and> m \<noteq> JUndefined
                  \<and> String_js m = Some s \<longrightarrow>
               fst (request E c method path options) = Inl (JsError s))
          \<and> (\<forall>fs m. d = JObj fs \<and> map_of fs ''message'' = Some m \<and> String_js m = None \<longrightarrow>
               fst (request E c method path options) = Inl (JsError (TypeError_message E)))
          \<and> (\<forall>fs. d = JObj fs \<and> map_of fs ''message'' = Some JUndefined \<longrightarrow>
               fst (request E c method path options) = Inl (JsError []))
          \<and> ((\<forall>fs. d = JObj fs \<longrightarrow> map_of fs ''message'' = None) \<longrightarrow>
               fst (request E c method path options) =
                 Inl (JsError (''HTTP '' @ show_nat (resp_status r) @ '': '' @ resp_statusText r))))"
proof -
  note req = request_result [OF sent resp dec]
  have msg: "errorMessage r (JObj fs) = m" if "map_of fs ''message'' = Some m" for fs m
    using that by (simp add: errorMessage_def)
  have syn: "errorMessage r d =
      JStr (''HTTP '' @ show_nat (resp_status r) @ '': '' @ resp_statusText r)"
    if "\<forall>fs. d = JObj fs \<longrightarrow> map_of fs ''message'' = None"
    using that by (cases d) (simp_all add: errorMessage_def)
  show ?thesis
    unfolding req response_ok_def
    by (intro conjI impI allI)
       (simp_all add: msg syn throw_new_Error_def ToString_def, (auto simp: msg throw_new_Error_def ToString_def)[1])
qed

text \<open>
  The claim as stated asks for the synthesized message whenever \<open>message\<close> is not a
  string. A 404 whose body is \<open>{message: 42}\<close> fails with the message \<open>42\<close>.
\<close>

theorem response_handling_counterexample:
  "decode_body (json_response 404 ''Not Found'' (JObj [(''message'', JNum 42)])) =
     Inr (JObj [(''message'', JNum 42)])
   \<and> fst (request (server_env (json_response 404 ''Not Found'' (JObj [(''message'', JNum 42)])))
        example_client ''GET'' ''/users/u1'' \<lparr>body = JUndefined, params = None\<rparr>) =
       Inl (JsError ''42'')
   \<and> fst (request (server_env (json_response 404 ''Not Found'' (JObj [(''message'', JNum 42)])))
        example_client ''GET'' ''/users/u1'' \<lparr>body = JUndefined, params = None\<rparr>) \<noteq>
       Inl (JsError ''HTTP 404: Not Found'')"
  by code_simp

theorem response_handling_witness:
  "snd (request (server_env (json_response 404 ''Not Found''
                                   (JObj [(''message'', JStr ''User not found'')])))
           example_client ''GET'' ''/users/u1'' \<lparr>body = JUndefined, params = None\<rparr>) =
       [\<lparr>fr_url = ''https://api.nevent.io/users/u1'', fr_method = ''GET'',
         fr_headers = [(''Authorization'', ''Bearer jwt''), (''Content-Type'', ''application/json'')],
         fr_body = None\<rparr>]
   \<and> decode_body (json_response 404 ''Not Found'' (JObj [(''message'', JStr ''User not found'')])) =
       Inr (JObj [(''message'', JStr ''User not found'')])
   \<and> fst (request (server_env (json_response 404 ''Not Found''
                                   (JObj [(''message'', JStr ''User not found'')])))
           example_client ''GET'' ''/users/u1'' \<lparr>body = JUndefined, params = None\<rparr>) =
       Inl (JsError ''User not found'')
   \<and> fst (request (server_env (json_response 204 ''No Content'' JNull))
           example_client ''DELETE'' ''/users/u1'' \<lparr>body = JUndefined, params = None\<rparr>) =
       Inr \<lparr>data = JNull, status = 204, ok = True\<rparr>"
proof -
  let ?d = "JObj [(''message'', JStr ''User not found'')]"
  let ?r = "json_response 404 ''Not Found'' ?d"
  let ?r2 = "json_response 204 ''No Content'' JNull"
  let ?opts = "\<lparr>body = JUndefined, params = None\<rparr>"
  let ?q = "\<lparr>fr_url = ''https://api.nevent.io/users/u1'', fr_method = ''GET'',
             fr_headers = [(''Authorization'', ''Bearer jwt''),
                           (''Content-Type'', ''application/json'')],
             fr_body = None\<rparr>"
  let ?q2 = "\<lparr>fr_url = ''https://api.nevent.io/users/u1'', fr_method = ''DELETE'',
              fr_headers = [(''Authorization'', ''Bearer jwt''),
                            (''Content-Type'', ''application/json'')],
              fr_body = None\<rparr>"
  have s: "snd (request (server_env ?r) example_client ''GET'' ''/users/u1'' ?opts) = [?q]"
    and s2: "snd (request (server_env ?r2) example_client ''DELETE'' ''/users/u1'' ?opts) = [?q2]"
    by code_simp+
  have f: "fetch (server_env ?r) ?q = Inr ?r" and f2: "fetch (server_env ?r2) ?q2 = Inr ?r2"
    by (simp_all add: server_env_def)
  have d: "decode_body ?r = Inr ?d" and d2: "decode_body ?r2 = Inr JNull" by code_simp+
  have st: "\<not> (200 \<le> resp_status ?r \<and> resp_status ?r \<le> 299)"
    and st2: "200 \<le> resp_status ?r2 \<and> resp_status ?r2 \<le> 299"
    and st3: "resp_status ?r2 = 204"
    by (simp_all add: json_response_def)
  have m: "?d = JObj [(''message'', JStr ''User not found'')]
           \<and> map_of [(''message'', JStr ''User not found'')] ''message'' = Some (JStr ''User not found'')"
    by simp
  from response_handling [OF s f d, THEN conjunct2, THEN mp, OF st, THEN conjunct1,
      THEN spec, THEN spec, THEN mp, OF m]
  have a: "fst (request (server_env ?r) example_client ''GET'' ''/users/u1'' ?opts) =
             Inl (JsError ''User not found'')" .
  from response_handling [OF s2 f2 d2, THEN conjunct1, THEN mp, OF st2]
  have b: "fst (request (server_env ?r2) example_client ''DELETE'' ''/users/u1'' ?opts) =
             Inr \<lparr>data = JNull, status = resp_status ?r2, ok = True\<rparr>" .
  from s d a b show ?thesis unfolding st3 by (intro conjI)
qed

text \<open>
  Claim C3, amended. For every call of \<open>request\<close> whose URL parses, either a parameter
  cannot be converted and nothing is sent, or exactly one request reaches \<open>fetch\<close>: when
  the method is not GET and the body is truthy, its payload is the JSON serialisation of
  the body; when the body is \<open>undefined\<close>, \<open>null\<close>, \<open>false\<close>, \<open>0\<close> or the empty string, or
  the method is GET, no payload is sent.
\<close>

theorem request_payload:
  assumes url: "new_URL E (baseUrl c @ path) = Inr u"
  shows "(\<exists>req. snd (request E c method path options) = [req]
           \<and> (truthy (body options) \<and> method \<noteq> ''GET'' \<longrightarrow>
                fr_body req = JSON_stringify (body options)
                \<and> (\<exists>t. JSON_stringify (body options) = Some t))
           \<and> (\<not> truthy (body options) \<longrightarrow> fr_body req = None)
           \<and> (method = ''GET'' \<longrightarrow> fr_body req = None))
       \<or> (snd (request E c method path options) = []
           \<and> (\<exists>ps k v. params options = Some ps \<and> (k, v) \<in> set ps \<and> v \<noteq> JUndefined
                 \<and> String_js v = None))"
proof (cases "with_params E u (params options)")
  case (Inr url')
  have "truthy (body options) \<Longrightarrow> \<exists>t. JSON_stringify (body options) = Some t"
    using json_ser_None [of "[]" "[]" "body options"]
    by (cases "JSON_stringify (body options)") (auto simp: JSON_stringify_def)
  then show ?thesis
    unfolding request_log [OF url Inr] by (auto simp: fetchOptions_def)
next
  case (Inl e)
  then obtain ps where ps: "params options = Some ps" and a: "append_params E u ps = Inl e"
    by (auto simp: with_params_def split: option.splits)
  from append_params_Inl [OF a] ps request_not_sent [OF url Inl, of "method"]
  show ?thesis by auto
qed

text \<open>
  The claim as stated covers every supplied body. A POST with the body \<open>0\<close> carries no
  payload, although \<open>0\<close> serialises to the text \<open>0\<close>.
\<close>

theorem request_payload_counterexample:
  "snd (request (server_env (json_response 200 ''OK'' JNull)) example_client ''POST''
        ''/segments/preview'' \<lparr>body = JNum 0, params = None\<rparr>) =
     [\<lparr>fr_url = ''https://api.nevent.io/segments/preview'', fr_method = ''POST'',
       fr_headers = [(''Authorization'', ''Bearer jwt''), (''Content-Type'', ''application/json'')],
       fr_body = None\<rparr>]
   \<and> JSON_stringify (JNum 0) = Some ''0''"
  by code_simp

theorem request_payload_witness:
  "new_URL (server_env (json_response 200 ''OK'' JNull)) (baseUrl example_client @ ''/users'') =
     Inr \<lparr>url_prefix = ''https://api.nevent.io/users'', url_query = None, searchParams = [],
          url_hash = []\<rparr>
   \<and> truthy (JObj [(''email'', JStr ''ann@x.io'')])
   \<and> map fr_body (snd (request (server_env (json_response 200 ''OK'' JNull)) example_client
        ''POST'' ''/users'' \<lparr>body = JObj [(''email'', JStr ''ann@x.io'')], params = None\<rparr>)) =
       [JSON_stringify (JObj [(''email'', JStr ''ann@x.io'')])]
   \<and> map fr_body (snd (request (server_env (json_response 200 ''OK'' JNull)) example_client
        ''GET'' ''/users'' \<lparr>body = JObj [(''email'', JStr ''ann@x.io'')], params = None\<rparr>)) =
       [None]"
proof -
  let ?E = "server_env (json_response 200 ''OK'' JNull)"
  let ?u = "\<lparr>url_prefix = ''https://api.nevent.io/users'', url_query = None, searchParams = [],
             url_hash = []\<rparr>"
  let ?b = "JObj [(''email'', JStr ''ann@x.io'')]"
  have u: "new_URL ?E (baseUrl example_client @ ''/users'') = Inr ?u" by code_simp
  have t: "truthy ?b" by simp
  from request_payload [OF u, of "''POST''" "\<lparr>body = ?b, params = None\<rparr>"] t
  have a: "map fr_body (snd (request ?E example_client ''POST'' ''/users''
             \<lparr>body = ?b, params = None\<rparr>)) = [JSON_stringify ?b]"
    by auto
  from request_payload [OF u, of "''GET''" "\<lparr>body = ?b, params = None\<rparr>"]
  have b: "map fr_body (snd (request ?E example_client ''GET'' ''/users''
             \<lparr>body = ?b, params = None\<rparr>)) = [None]"
    by auto
  from u t a b show ?thesis by simp
qed

section \<open>The dispatcher\<close>

lemmas switch_defs =
  switch_name_def switch_cases_def user_cases_def campaign_cases_def lineup_cases_def








lemma switch_unregistered:
  "nm \<notin> fst ` set switch_cases \<Longrightarrow>
   switch_name E c nm args = (Inl (McpError MethodNotFound (''Unknown tool: '' @ nm)), [])"
  by (simp add: switch_name_def map_of_eq_None_iff [THEN iffD2])

lemma response_data_simps:
  "snd (response_data out) = snd out"
  "fst out = Inl e \<Longrightarrow> fst (response_data out) = Inl e"
  "fst out = Inr r \<Longrightarrow> fst (response_data out) = Inr (data r)"
  by (simp_all add: response_data_def split: sum.splits)



lemma handler_result:
  "fst (switch_name E c (name req) (case arguments req of None \<Rightarrow> [] | Some a \<Rightarrow> a)) =
     Inr v \<Longrightarrow>
   handler E c req =
     (Inr \<lparr>content = [\<lparr>item_type = ''text'', item_text = JSON_stringify_2 v\<rparr>],
           isError = None\<rparr>,
      snd (switch_name E c (name req) (case arguments req of None \<Rightarrow> [] | Some a \<Rightarrow> a)))"
  by (simp add: handler_def Let_def)

lemma handler_log:
  "snd (handler E c req) =
     snd (switch_name E c (name req) (case arguments req of None \<Rightarrow> [] | Some a \<Rightarrow> a))"
  by (simp add: handler_def Let_def split: sum.splits)

lemma handler_log_Some:
  "snd (handler E c \<lparr>name = t, arguments = Some args\<rparr>) = snd (switch_name E c t args)"
  by (simp add: handler_log)

lemma handler_log_None:
  "snd (handler E c \<lparr>name = t, arguments = None\<rparr>) = snd (switch_name E c t [])"
  by (simp add: handler_log)

lemma handler_cong:
  "switch_name E c t args = switch_name E c t args' \<Longrightarrow>
   handler E c \<lparr>name = t, arguments = Some args\<rparr> =
   handler E c \<lparr>name = t, arguments = Some args'\<rparr>"
  by (simp add: handler_def)




text \<open>What the \<open>switch\<close> does for each tool.\<close>

lemmas lookup_rules =
  switch_defs append.simps map_of_Cons_code list.inject list.distinct char.inject simp_thms
  if_False if_True option.case prod.case

lemma sw_list_users:
  "switch_name E c ''list_users'' args =
     client_get E c ''/users''
       (Some [(''page'', nullish (get_prop args ''page'') (JNum 0)),
              (''size'', nullish (get_prop args ''size'') (JNum 20)),
              (''sort'', get_prop args ''sort''),
              (''email'', get_prop args ''email''),
              (''name'', get_prop args ''name''),
              (''phone'', get_prop args ''phone''),
              (''createdFrom'', get_prop args ''createdFrom''),
              (''createdTo'', get_prop args ''createdTo''),
              (''eventId'', get_prop args ''eventId''),
              (''listId'', get_prop args ''listId'')])"
  by (simp only: lookup_rules listUsers_def)

lemma sw_get_user:
  "switch_name E c ''get_user'' args =
     with_string E (get_prop args ''userId'') (\<lambda>s.
       client_get E c (''/users/'' @ s)
         None)"
  by (simp only: lookup_rules getUser_def)

lemma sw_get_user_by_email:
  "switch_name E c ''get_user_by_email'' args =
     with_string E (get_prop args ''email'') (\<lambda>s.
       client_get E c (''/users/email/'' @ encodeURIComponent s)
         None)"
  by (simp only: lookup_rules getUserByEmail_def)

lemma sw_create_user:
  "switch_name E c ''create_user'' args =
     client_post E c ''/users''
       (JObj args)"
  by (simp only: lookup_rules createUser_def)

lemma sw_update_user:
  "switch_name E c ''update_user'' args =
     with_string E (get_prop args ''userId'') (\<lambda>s.
       client_put E c (''/users/'' @ s)
         (JObj (rest_without ''userId'' args)))"
  by (simp only: lookup_rules updateUser_def)

lemma sw_delete_user:
  "switch_name E c ''delete_user'' args =
     with_string E (get_prop args ''userId'') (\<lambda>s.
       client_delete E c (''/users/'' @ s))"
  by (simp only: lookup_rules deleteUser_def)

lemma sw_get_user_purchases:
  "switch_name E c ''get_user_purchases'' args =
     with_string E (get_prop args ''userId'') (\<lambda>s.
       client_get E c (''/users/'' @ s @ ''/purchases'')
         (Some [(''page'', nullish (get_prop [(''page'', get_prop args ''page''), (''size'', get_prop args ''size'')] ''page'') (JNum 0)),
                (''size'', nullish (get_prop [(''page'', get_prop args ''page''), (''size'', get_prop args ''size'')] ''size'') (JNum 20))]))"
  by (simp only: lookup_rules getUserPurchases_def)

lemma sw_get_user_events:
  "switch_name E c ''get_user_events'' args =
     with_string E (get_prop args ''userId'') (\<lambda>s.
       client_get E c (''/users/'' @ s @ ''/events'')
         (Some [(''page'', nullish (get_prop [(''page'', get_prop args ''page''), (''size'', get_prop args ''size''), (''type'', get_prop args ''type'')] ''page'') (JNum 0)),
                (''size'', nullish (get_prop [(''page'', get_prop args ''page''), (''size'', get_prop args ''size''), (''type'', get_prop args ''type'')] ''size'') (JNum 20)),
                (''type'', get_prop [(''page'', get_prop args ''page''), (''size'', get_prop args ''size''), (''type'', get_prop args ''type'')] ''type'')]))"
  by (simp only: lookup_rules getUserEvents_def)

lemma sw_get_property_definitions:
  "switch_name E c ''get_property_definitions'' args =
     client_get E c ''/properties''
       (Some [(''type'', get_prop args ''type'')])"
  by (simp only: lookup_rules getPropertyDefinitions_def)

lemma sw_create_property_definition:
  "switch_name E c ''create_property_definition'' args =
     client_post E c ''/properties''
       (JObj args)"
  by (simp only: lookup_rules createPropertyDefinition_def)

lemma sw_get_user_communication_preferences:
  "switch_name E c ''get_user_communication_preferences'' args =
     with_string E (get_prop args ''userId'') (\<lambda>s.
       client_get E c (''/users/'' @ s @ ''/communication-preferences'')
         None)"
  by (simp only: lookup_rules getUserCommunicationPreferences_def)

lemma sw_update_user_communication_preferences:
  "switch_name E c ''update_user_communication_preferences'' args =
     with_string E (get_prop args ''userId'') (\<lambda>s.
       client_put E c (''/users/'' @ s @ ''/communication-preferences'')
         (JObj (rest_without ''userId'' args)))"
  by (simp only: lookup_rules updateUserCommunicationPreferences_def)

lemma sw_get_user_count:
  "switch_name E c ''get_user_count'' args =
     client_get E c ''/users/count''
       None"
  by (simp only: lookup_rules getUserCount_def)

lemma sw_export_users:
  "switch_name E c ''export_users'' args =
     client_post E c ''/users/export''
       (JObj args)"
  by (simp only: lookup_rules exportUsers_def)

lemma sw_list_campaigns:
  "switch_name E c ''list_campaigns'' args =
     client_get E c ''/campaigns''
       (Some [(''page'', nullish (get_prop args ''page'') (JNum 0)),
              (''size'', nullish (get_prop args ''size'') (JNum 20)),
              (''sort'', get_prop args ''sort''),
              (''type'', get_prop args ''type''),
              (''status'', get_prop args ''status'')])"
  by (simp only: lookup_rules listCampaigns_def)

lemma sw_get_campaign:
  "switch_name E c ''get_campaign'' args =
     with_string E (get_prop args ''campaignId'') (\<lambda>s.
       client_get E c (''/campaigns/'' @ s)
         None)"
  by (simp only: lookup_rules getCampaign_def)

lemma sw_create_campaign:
  "switch_name E c ''create_campaign'' args =
     client_post E c ''/campaigns''
       (JObj args)"
  by (simp only: lookup_rules createCampaign_def)

lemma sw_update_campaign:
  "switch_name E c ''update_campaign'' args =
     with_string E (get_prop args ''campaignId'') (\<lambda>s.
       client_put E c (''/campaigns/'' @ s)
         (JObj (rest_without ''campaignId'' args)))"
  by (simp only: lookup_rules updateCampaign_def)

lemma sw_delete_campaign:
  "switch_name E c ''delete_campaign'' args =
     with_string E (get_prop args ''campaignId'') (\<lambda>s.
       client_delete E c (''/campaigns/'' @ s))"
  by (simp only: lookup_rules deleteCampaign_def)

lemma sw_send_campaign:
  "switch_name E c ''send_campaign'' args =
     with_string E (get_prop args ''campaignId'') (\<lambda>s.
       client_post E c (''/campaigns/'' @ s @ ''/send'')
         JUndefined)"
  by (simp only: lookup_rules sendCampaign_def)

lemma sw_schedule_campaign:
  "switch_name E c ''schedule_campaign'' args =
     with_string E (get_prop args ''campaignId'') (\<lambda>s.
       client_post E c (''/campaigns/'' @ s @ ''/schedule'')
         (JObj [(''scheduledAt'', (get_prop args ''scheduledAt''))]))"
  by (simp only: lookup_rules scheduleCampaign_def)

lemma sw_pause_campaign:
  "switch_name E c ''pause_campaign'' args =
     with_string E (get_prop args ''campaignId'') (\<lambda>s.
       client_post E c (''/campaigns/'' @ s @ ''/pause'')
         JUndefined)"
  by (simp only: lookup_rules pauseCampaign_def)

lemma sw_cancel_campaign:
  "switch_name E c ''cancel_campaign'' args =
     with_string E (get_prop args ''campaignId'') (\<lambda>s.
       client_post E c (''/campaigns/'' @ s @ ''/cancel'')
         JUndefined)"
  by (simp only: lookup_rules cancelCampaign_def)

lemma sw_get_campaign_metrics:
  "switch_name E c ''get_campaign_metrics'' args =
     with_string E (get_prop args ''campaignId'') (\<lambda>s.
       client_get E c (''/campaigns/'' @ s @ ''/metrics'')
         None)"
  by (simp only: lookup_rules getCampaignMetrics_def)

lemma sw_send_test_campaign:
  "switch_name E c ''send_test_campaign'' args =
     with_string E (get_prop args ''campaignId'') (\<lambda>s.
       client_post E c (''/campaigns/'' @ s @ ''/test'')
         (JObj [(''emails'', (get_prop args ''testEmails''))]))"
  by (simp only: lookup_rules sendTestCampaign_def)

lemma sw_duplicate_campaign:
  "switch_name E c ''duplicate_campaign'' args =
     with_string E (get_prop args ''campaignId'') (\<lambda>s.
       client_post E c (''/campaigns/'' @ s @ ''/duplicate'')
         JUndefined)"
  by (simp only: lookup_rules duplicateCampaign_def)

lemma sw_list_segments:
  "switch_name E c ''list_segments'' args =
     client_get E c ''/segments''
       (Some [(''page'', nullish (get_prop args ''page'') (JNum 0)),
              (''size'', nullish (get_prop args ''size'') (JNum 20)),
              (''sort'', get_prop args ''sort'')])"
  by (simp only: lookup_rules listSegments_def)

lemma sw_get_segment:
  "switch_name E c ''get_segment'' args =
     with_string E (get_prop args ''segmentId'') (\<lambda>s.
       client_get E c (''/segments/'' @ s)
         None)"
  by (simp only: lookup_rules getSegment_def)

lemma sw_create_segment:
  "switch_name E c ''create_segment'' args =
     client_post E c ''/segments''
       (JObj args)"
  by (simp only: lookup_rules createSegment_def)

lemma sw_update_segment:
  "switch_name E c ''update_segment'' args =
     with_string E (get_prop args ''segmentId'') (\<lambda>s.
       client_put E c (''/segments/'' @ s)
         (JObj (rest_without ''segmentId'' args)))"
  by (simp only: lookup_rules updateSegment_def)

lemma sw_delete_segment:
  "switch_name E c ''delete_segment'' args =
     with_string E (get_prop args ''segmentId'') (\<lambda>s.
       client_delete E c (''/segments/'' @ s))"
  by (simp only: lookup_rules deleteSegment_def)

lemma sw_preview_segment:
  "switch_name E c ''preview_segment'' args =
     client_post E c ''/segments/preview''
       (get_prop args ''criteria'')"
  by (simp only: lookup_rules previewSegment_def)

lemma sw_execute_segment:
  "switch_name E c ''execute_segment'' args =
     with_string E (get_prop args ''segmentId'') (\<lambda>s.
       client_post E c (''/segments/'' @ s @ ''/execute'')
         JUndefined)"
  by (simp only: lookup_rules executeSegment_def)

lemma sw_list_email_templates:
  "switch_name E c ''list_email_templates'' args =
     client_get E c ''/templates/email''
       (Some [(''page'', nullish (get_prop args ''page'') (JNum 0)),
              (''size'', nullish (get_prop args ''size'') (JNum 20)),
              (''sort'', get_prop args ''sort'')])"
  by (simp only: lookup_rules listEmailTemplates_def)

lemma sw_get_email_template:
  "switch_name E c ''get_email_template'' args =
     with_string E (get_prop args ''templateId'') (\<lambda>s.
       client_get E c (''/templates/email/'' @ s)
         None)"
  by (simp only: lookup_rules getEmailTemplate_def)

lemma sw_create_email_template:
  "switch_name E c ''create_email_template'' args =
     client_post E c ''/templates/email''
       (JObj args)"
  by (simp only: lookup_rules createEmailTemplate_def)

lemma sw_update_email_template:
  "switch_name E c ''update_email_template'' args =
     with_string E (get_prop args ''templateId'') (\<lambda>s.
       client_put E c (''/templates/email/'' @ s)
         (JObj (rest_without ''templateId'' args)))"
  by (simp only: lookup_rules updateEmailTemplate_def)

lemma sw_delete_email_template:
  "switch_name E c ''delete_email_template'' args =
     with_string E (get_prop args ''templateId'') (\<lambda>s.
       client_delete E c (''/templates/email/'' @ s))"
  by (simp only: lookup_rules deleteEmailTemplate_def)

lemma sw_render_email_template:
  "switch_name E c ''render_email_template'' args =
     with_string E (get_prop args ''templateId'') (\<lambda>s.
       client_get E c (''/templates/email/'' @ s @ ''/render'')
         None)"
  by (simp only: lookup_rules renderEmailTemplate_def)

lemma sw_generate_email_content:
  "switch_name E c ''generate_email_content'' args =
     client_post E c ''/campaigns/generate''
       (JObj (obj_spread [(''prompt'', (get_prop args ''prompt''))] (rest_without ''prompt'' args)))"
  by (simp only: lookup_rules generateEmailContent_def)

lemma sw_create_performer:
  "switch_name E c ''create_performer'' args =
     client_post E c ''/admin/performers''
       (JObj args)"
  by (simp only: lookup_rules createPerformer_def)

lemma sw_search_spotify:
  "switch_name E c ''search_spotify'' args =
     client_get E c ''/admin/performers/spotify/search''
       (Some [(''query'', (get_prop args ''query'')), (''limit'', default_param (get_prop args ''limit'') (JNum 10))])"
  by (simp only: lookup_rules searchSpotify_def)

lemma sw_search_performers:
  "switch_name E c ''search_performers'' args =
     client_get E c ''/admin/performers/search''
       (Some [(''query'', (get_prop args ''query'')), (''limit'', default_param (get_prop args ''limit'') (JNum 10))])"
  by (simp only: lookup_rules searchPerformers_def)

lemma sw_link_performer_spotify:
  "switch_name E c ''link_performer_spotify'' args =
     with_string E (get_prop args ''performerId'') (\<lambda>s.
       client_post E c (''/admin/performers/'' @ s @ ''/link-spotify'')
         (JObj [(''spotifyId'', get_prop args ''spotifyId''), (''overrideData'', get_prop args ''overrideData'')]))"
  by (simp only: lookup_rules linkPerformerSpotify_def)

lemma sw_unlink_performer_from_master:
  "switch_name E c ''unlink_performer_from_master'' args =
     with_string E (get_prop args ''performerId'') (\<lambda>s.
       client_post E c (''/admin/performers/'' @ s @ ''/unlink-master'')
         JUndefined)"
  by (simp only: lookup_rules unlinkPerformerFromMaster_def)

lemma sw_update_performer:
  "switch_name E c ''update_performer'' args =
     with_string E (get_prop args ''performerId'') (\<lambda>s.
       client_patch E c (''/admin/performers/'' @ s)
         (JObj (rest_without ''performerId'' args)))"
  by (simp only: lookup_rules updatePerformer_def)

lemma sw_get_performer:
  "switch_name E c ''get_performer'' args =
     with_string E (get_prop args ''performerId'') (\<lambda>s.
       client_get E c (''/admin/performers/'' @ s)
         (Some [(''includeMaster'', default_param (get_prop args ''includeMaster'') (JBool False))]))"
  by (simp only: lookup_rules getPerformer_def)

lemma sw_list_performers:
  "switch_name E c ''list_performers'' args =
     client_get E c ''/admin/performers''
       (Some [(''page'', nullish (get_prop [(''page'', get_prop args ''page''), (''size'', get_prop args ''size''), (''sort'', get_prop args ''sort'')] ''page'') (JNum 0)),
              (''size'', nullish (get_prop [(''page'', get_prop args ''page''), (''size'', get_prop args ''size''), (''sort'', get_prop args ''sort'')] ''size'') (JNum 20)),
              (''sort'', get_prop [(''page'', get_prop args ''page''), (''size'', get_prop args ''size''), (''sort'', get_prop args ''sort'')] ''sort'')])"
  by (simp only: lookup_rules listPerformers_def)

lemma sw_delete_performer:
  "switch_name E c ''delete_performer'' args =
     with_string E (get_prop args ''performerId'') (\<lambda>s.
       client_delete E c (''/admin/performers/'' @ s))"
  by (simp only: lookup_rules deletePerformer_def)

lemma sw_create_performer_from_master:
  "switch_name E c ''create_performer_from_master'' args =
     with_string E (get_prop args ''masterPerformerId'') (\<lambda>s.
       client_post E c (''/admin/performers/from-master-performer/'' @ s)
         JUndefined)"
  by (simp only: lookup_rules createPerformerFromMaster_def)

lemma sw_get_performer_likes:
  "switch_name E c ''get_performer_likes'' args =
     with_string E (get_prop args ''performerId'') (\<lambda>s.
       client_get E c (''/admin/performers/'' @ s @ ''/likes'')
         (Some [(''page'', nullish (get_prop [(''page'', get_prop args ''page''), (''size'', get_prop args ''size'')] ''page'') (JNum 0)),
                (''size'', nullish (get_prop [(''page'', get_prop args ''page''), (''size'', get_prop args ''size'')] ''size'') (JNum 20))]))"
  by (simp only: lookup_rules getPerformerLikes_def)

lemma sw_list_event_sessions:
  "switch_name E c ''list_event_sessions'' args =
     with_string E (get_prop args ''eventId'') (\<lambda>s.
       client_get E c (''/admin/events/'' @ s @ ''/sessions'')
         (Some [(''date'', get_prop [(''date'', get_prop args ''date''), (''stage'', get_prop args ''stage''), (''isPublished'', get_prop args ''isPublished'')] ''date''),
                (''stage'', get_prop [(''date'', get_prop args ''date''), (''stage'', get_prop args ''stage''), (''isPublished'', get_prop args ''isPublished'')] ''stage''),
                (''isPublished'', get_prop [(''date'', get_prop args ''date''), (''stage'', get_prop args ''stage''), (''isPublished'', get_prop args ''isPublished'')] ''isPublished'')]))"
  by (simp only: lookup_rules listEventSessions_def)

lemma sw_create_session:
  "switch_name E c ''create_session'' args =
     with_string E (get_prop args ''eventId'') (\<lambda>s.
       client_post E c (''/admin/events/'' @ s @ ''/sessions'')
         (JObj (obj_set ''eventId'' (get_prop args ''eventId'') (obj_spread [] (rest_without ''eventId'' args)))))"
  by (simp only: lookup_rules createSession_def)

lemma sw_update_session:
  "switch_name E c ''update_session'' args =
     with_string E (get_prop args ''sessionId'') (\<lambda>s.
       client_patch E c (''/admin/sessions/'' @ s)
         (JObj (rest_without ''sessionId'' args)))"
  by (simp only: lookup_rules updateSession_def)

lemma sw_get_session:
  "switch_name E c ''get_session'' args =
     with_string E (get_prop args ''sessionId'') (\<lambda>s.
       client_get E c (''/admin/sessions/'' @ s)
         None)"
  by (simp only: lookup_rules getSession_def)

lemma sw_delete_session:
  "switch_name E c ''delete_session'' args =
     with_string E (get_prop args ''sessionId'') (\<lambda>s.
       client_delete E c (''/admin/sessions/'' @ s))"
  by (simp only: lookup_rules deleteSession_def)

lemma sw_add_performer_to_session:
  "switch_name E c ''add_performer_to_session'' args =
     with_string E (get_prop args ''sessionId'') (\<lambda>s.
       client_post E c (''/admin/sessions/'' @ s @ ''/performers'')
         (JObj [(''performerId'', get_prop args ''performerId''), (''displayOrder'', get_prop args ''displayOrder''), (''notes'', get_prop args ''notes'')]))"
  by (simp only: lookup_rules addPerformerToSession_def)

lemma sw_remove_performer_from_session:
  "switch_name E c ''remove_performer_from_session'' args =
     with_string E (get_prop args ''sessionId'') (\<lambda>s1.
       with_string E (get_prop args ''performerId'') (\<lambda>s2.
         client_delete E c (''/admin/sessions/'' @ s1 @ ''/performers/'' @ s2)))"
  by (simp only: lookup_rules removePerformerFromSession_def)

lemma sw_reorder_session_performers:
  "switch_name E c ''reorder_session_performers'' args =
     with_string E (get_prop args ''sessionId'') (\<lambda>s.
       client_put E c (''/admin/sessions/'' @ s @ ''/performers/reorder'')
         (get_prop args ''newOrders''))"
  by (simp only: lookup_rules reorderSessionPerformers_def)

lemma sw_publish_session:
  "switch_name E c ''publish_session'' args =
     with_string E (get_prop args ''sessionId'') (\<lambda>s.
       client_patch E c (''/admin/sessions/'' @ s @ ''/publish'')
         (JObj [(''isPublished'', (get_prop args ''isPublished''))]))"
  by (simp only: lookup_rules publishSession_def)

lemma sw_get_public_lineup:
  "switch_name E c ''get_public_lineup'' args =
     with_string E (get_prop args ''eventId'') (\<lambda>s.
       client_get E c (''/public/events/'' @ s @ ''/lineup'')
         None)"
  by (simp only: lookup_rules getPublicLineup_def)

lemma sw_get_admin_lineup:
  "switch_name E c ''get_admin_lineup'' args =
     with_string E (get_prop args ''eventId'') (\<lambda>s.
       client_get E c (''/admin/events/'' @ s @ ''/lineup'')
         None)"
  by (simp only: lookup_rules getAdminLineup_def)

lemma sw_create_or_update_daily_lineup:
  "switch_name E c ''create_or_update_daily_lineup'' args =
     with_string E (get_prop args ''eventId'') (\<lambda>s.
       client_post E c (''/events/'' @ s @ ''/daily-lineup'')
         (JObj [(''date'', get_prop args ''date''), (''performerIds'', get_prop args ''performerIds''), (''displayOrder'', get_prop args ''displayOrder'')]))"
  by (simp only: lookup_rules createOrUpdateDailyLineup_def)

lemma sw_get_all_daily_lineups:
  "switch_name E c ''get_all_daily_lineups'' args =
     with_string E (get_prop args ''eventId'') (\<lambda>s.
       client_get E c (''/events/'' @ s @ ''/daily-lineup'')
         None)"
  by (simp only: lookup_rules getAllDailyLineups_def)

lemma sw_get_daily_lineup_by_date:
  "switch_name E c ''get_daily_lineup_by_date'' args =
     with_string E (get_prop args ''eventId'') (\<lambda>s1.
       with_string E (get_prop args ''date'') (\<lambda>s2.
         client_get E c (''/events/'' @ s1 @ ''/daily-lineup/'' @ s2)
           None))"
  by (simp only: lookup_rules getDailyLineupByDate_def)

lemma sw_update_daily_lineup:
  "switch_name E c ''update_daily_lineup'' args =
     with_string E (get_prop args ''eventId'') (\<lambda>s1.
       with_string E (get_prop args ''date'') (\<lambda>s2.
         client_put E c (''/events/'' @ s1 @ ''/daily-lineup/'' @ s2)
           (JObj [(''date'', get_prop args ''date''), (''performerIds'', get_prop args ''performerIds''), (''displayOrder'', get_prop args ''displayOrder'')])))"
  by (simp only: lookup_rules updateDailyLineup_def)

lemma sw_publish_daily_lineup:
  "switch_name E c ''publish_daily_lineup'' args =
     with_string E (get_prop args ''eventId'') (\<lambda>s1.
       with_string E (get_prop args ''date'') (\<lambda>s2.
         client_put E c (''/events/'' @ s1 @ ''/daily-lineup/'' @ s2 @ ''/publish'')
           JUndefined))"
  by (simp only: lookup_rules publishDailyLineup_def)

lemma sw_unpublish_daily_lineup:
  "switch_name E c ''unpublish_daily_lineup'' args =
     with_string E (get_prop args ''eventId'') (\<lambda>s1.
       with_string E (get_prop args ''date'') (\<lambda>s2.
         client_put E c (''/events/'' @ s1 @ ''/daily-lineup/'' @ s2 @ ''/unpublish'')
           JUndefined))"
  by (simp only: lookup_rules unpublishDailyLineup_def)

lemma sw_delete_daily_lineup:
  "switch_name E c ''delete_daily_lineup'' args =
     with_string E (get_prop args ''eventId'') (\<lambda>s1.
       with_string E (get_prop args ''date'') (\<lambda>s2.
         client_delete E c (''/events/'' @ s1 @ ''/daily-lineup/'' @ s2)))"
  by (simp only: lookup_rules deleteDailyLineup_def)

lemmas sw_rules =
  sw_list_users sw_get_user sw_get_user_by_email sw_create_user sw_update_user sw_delete_user
  sw_get_user_purchases sw_get_user_events sw_get_property_definitions
  sw_create_property_definition sw_get_user_communication_preferences
  sw_update_user_communication_preferences sw_get_user_count sw_export_users sw_list_campaigns
  sw_get_campaign sw_create_campaign sw_update_campaign sw_delete_campaign sw_send_campaign
  sw_schedule_campaign sw_pause_campaign sw_cancel_campaign sw_get_campaign_metrics
  sw_send_test_campaign sw_duplicate_campaign sw_list_segments sw_get_segment sw_create_segment
  sw_update_segment sw_delete_segment sw_preview_segment sw_execute_segment
  sw_list_email_templates sw_get_email_template sw_create_email_template
  sw_update_email_template sw_delete_email_template sw_render_email_template
  sw_generate_email_content sw_create_performer sw_search_spotify sw_search_performers
  sw_link_performer_spotify sw_unlink_performer_from_master sw_update_performer
  sw_get_performer sw_list_performers sw_delete_performer sw_create_performer_from_master
  sw_get_performer_likes sw_list_event_sessions sw_create_session sw_update_session
  sw_get_session sw_delete_session sw_add_performer_to_session sw_remove_performer_from_session
  sw_reorder_session_performers sw_publish_session sw_get_public_lineup sw_get_admin_lineup
  sw_create_or_update_daily_lineup sw_get_all_daily_lineups sw_get_daily_lineup_by_date
  sw_update_daily_lineup sw_publish_daily_lineup sw_unpublish_daily_lineup
  sw_delete_daily_lineup

section \<open>The tools\<close>

lemma insert_index_set: "set (insert_index n k v fs) = insert (k, v) (set fs)"
  by (induction fs) (auto split: option.splits)

lemma obj_set_key: "k \<in> fst ` set (obj_set k v fs)"
proof (cases "k \<in> set (map fst fs)")
  case True
  then obtain b where "(k, b) \<in> set fs" by auto
  then have "(k, v) \<in> set (map (\<lambda>p. if fst p = k then (k, v) else p) fs)" by force
  then have "fst (k, v) \<in> fst ` set (map (\<lambda>p. if fst p = k then (k, v) else p) fs)"
    by (rule imageI)
  with True show ?thesis by (simp only: obj_set_def if_True fst_conv)
next
  case False
  then show ?thesis
    by (cases "array_index k") (simp_all add: obj_set_def insert_index_set)
qed

lemma with_string_Some: "String_js v = Some s \<Longrightarrow> with_string E v k = k s"
  by (simp add: with_string_def ToString_def)


text \<open>
  Claim C4. The entry point reads the tenant identifier and passes it to the client's
  constructor, and the client announces multi-tenant support; the constructor keeps the
  base URL and the token only, so a client built with a tenant identifier is the client
  built without it, and a request carries the two fixed headers and no tenant.
\<close>

theorem tenant_not_forwarded:
  "NeventClient_new (config\<lparr>cfg_tenantId := t\<rparr>) = NeventClient_new config
   \<and> cfg_tenantId example_config = Some ''acme''
   \<and> snd (handler (server_env (json_response 200 ''OK'' (JObj [(''count'', JNum 3)])))
          (NeventClient_new example_config) \<lparr>name = ''get_user_count'', arguments = None\<rparr>) =
       [\<lparr>fr_url = ''https://api.nevent.io/users/count'', fr_method = ''GET'',
         fr_headers = [(''Authorization'', ''Bearer jwt''), (''Content-Type'', ''application/json'')],
         fr_body = None\<rparr>]"
proof -
  have "snd (handler (server_env (json_response 200 ''OK'' (JObj [(''count'', JNum 3)])))
          (NeventClient_new example_config) \<lparr>name = ''get_user_count'', arguments = None\<rparr>) =
       [\<lparr>fr_url = ''https://api.nevent.io/users/count'', fr_method = ''GET'',
         fr_headers = [(''Authorization'', ''Bearer jwt''), (''Content-Type'', ''application/json'')],
         fr_body = None\<rparr>]"
    by code_simp
  then show ?thesis by (simp add: NeventClient_new_def example_config_def)
qed

text \<open>
  Claim C5, amended. Every tool whose arguments include a path identifier (\<open>userId\<close>,
  \<open>campaignId\<close>, \<open>segmentId\<close>, \<open>templateId\<close>, \<open>performerId\<close>, \<open>sessionId\<close>, \<open>eventId\<close>, or
  \<open>date\<close> in the path) reads the identifier from the argument object and writes its text
  into the path; if it cannot be converted, nothing is sent. What is forwarded besides
  is, for every such tool except \<open>create_session\<close> and \<open>update_daily_lineup\<close>:

    \<^item> for the seven update tools, the body made of the argument object with the
      identifier removed, so the identifier is not a property of the body;
    \<^item> for \<open>schedule_campaign\<close>, \<open>send_test_campaign\<close>, \<open>link_performer_spotify\<close>,
      \<open>add_performer_to_session\<close>, \<open>publish_session\<close> and \<open>create_or_update_daily_lineup\<close>,
      a body of named properties, none of which is the identifier;
    \<^item> for \<open>get_user_purchases\<close>, \<open>get_user_events\<close>, \<open>get_performer\<close>,
      \<open>get_performer_likes\<close> and \<open>list_event_sessions\<close>, a query of named parameters, none
      of which is the identifier;
    \<^item> for \<open>reorder_session_performers\<close>, the body that is the caller's \<open>newOrders\<close> value
      as it is, whatever it holds;
    \<^item> for the other tools, neither body nor query.

  \<open>create_session\<close> puts \<open>eventId\<close> back into the body, and \<open>update_daily_lineup\<close> sends
  \<open>date\<close> in the path and in the body.
\<close>

theorem path_identifiers:
  "(switch_name E c ''update_user'' args =
     with_string E (get_prop args ''userId'') (\<lambda>s.
       client_put E c (''/users/'' @ s)
         (JObj (rest_without ''userId'' args)))
   \<and> switch_name E c ''update_user_communication_preferences'' args =
     with_string E (get_prop args ''userId'') (\<lambda>s.
       client_put E c (''/users/'' @ s @ ''/communication-preferences'')
         (JObj (rest_without ''userId'' args)))
   \<and> switch_name E c ''update_campaign'' args =
     with_string E (get_prop args ''campaignId'') (\<lambda>s.
       client_put E c (''/campaigns/'' @ s)
         (JObj (rest_without ''campaignId'' args)))
   \<and> switch_name E c ''update_segment'' args =
     with_string E (get_prop args ''segmentId'') (\<lambda>s.
       client_put E c (''/segments/'' @ s)
         (JObj (rest_without ''segmentId'' args)))
   \<and> switch_name E c ''update_email_template'' args =
     with_string E (get_prop args ''templateId'') (\<lambda>s.
       client_put E c (''/templates/email/'' @ s)
         (JObj (rest_without ''templateId'' args)))
   \<and> switch_name E c ''update_performer'' args =
     with_string E (get_prop args ''performerId'') (\<lambda>s.
       client_patch E c (''/admin/performers/'' @ s)
         (JObj (rest_without ''performerId'' args)))
   \<and> switch_name E c ''update_session'' args =
     with_string E (get_prop args ''sessionId'') (\<lambda>s.
       client_patch E c (''/admin/sessions/'' @ s)
         (JObj (rest_without ''sessionId'' args)))
   \<and> k \<notin> fst ` set (rest_without k args))
 \<and> (switch_name E c ''schedule_campaign'' args =
     with_string E (get_prop args ''campaignId'') (\<lambda>s.
       client_post E c (''/campaigns/'' @ s @ ''/schedule'')
         (JObj [(''scheduledAt'', get_prop args ''scheduledAt'')]))
   \<and> switch_name E c ''send_test_campaign'' args =
     with_string E (get_prop args ''campaignId'') (\<lambda>s.
       client_post E c (''/campaigns/'' @ s @ ''/test'')
         (JObj [(''emails'', get_prop args ''testEmails'')]))
   \<and> switch_name E c ''link_performer_spotify'' args =
     with_string E (get_prop args ''performerId'') (\<lambda>s.
       client_post E c (''/admin/performers/'' @ s @ ''/link-spotify'')
         (JObj [(''spotifyId'', get_prop args ''spotifyId''),
              (''overrideData'', get_prop args ''overrideData'')]))
   \<and> switch_name E c ''add_performer_to_session'' args =
     with_string E (get_prop args ''sessionId'') (\<lambda>s.
       client_post E c (''/admin/sessions/'' @ s @ ''/performers'')
         (JObj [(''performerId'', get_prop args ''performerId''),
              (''displayOrder'', get_prop args ''displayOrder''),
              (''notes'', get_prop args ''notes'')]))
   \<and> switch_name E c ''publish_session'' args =
     with_string E (get_prop args ''sessionId'') (\<lambda>s.
       client_patch E c (''/admin/sessions/'' @ s @ ''/publish'')
         (JObj [(''isPublished'', get_prop args ''isPublished'')]))
   \<and> switch_name E c ''create_or_update_daily_lineup'' args =
     with_string E (get_prop args ''eventId'') (\<lambda>s.
       client_post E c (''/events/'' @ s @ ''/daily-lineup'')
         (JObj [(''date'', get_prop args ''date''),
              (''performerIds'', get_prop args ''performerIds''),
              (''displayOrder'', get_prop args ''displayOrder'')])))
 \<and> (switch_name E c ''get_user_purchases'' args =
     with_string E (get_prop args ''userId'') (\<lambda>s.
       client_get E c (''/users/'' @ s @ ''/purchases'')
         (Some [(''page'', nullish (get_prop args ''page'') (JNum 0)),
                (''size'', nullish (get_prop args ''size'') (JNum 20))]))
   \<and> switch_name E c ''get_user_events'' args =
     with_string E (get_prop args ''userId'') (\<lambda>s.
       client_get E c (''/users/'' @ s @ ''/events'')
         (Some [(''page'', nullish (get_prop args ''page'') (JNum 0)),
                (''size'', nullish (get_prop args ''size'') (JNum 20)),
                (''type'', get_prop args ''type'')]))
   \<and> switch_name E c ''get_performer'' args =
     with_string E (get_prop args ''performerId'') (\<lambda>s.
       client_get E c (''/admin/performers/'' @ s)
         (Some [(''includeMaster'', default_param (get_prop args ''includeMaster'') (JBool False))]))
   \<and> switch_name E c ''get_performer_likes'' args =
     with_string E (get_prop args ''performerId'') (\<lambda>s.
       client_get E c (''/admin/performers/'' @ s @ ''/likes'')
         (Some [(''page'', nullish (get_prop args ''page'') (JNum 0)),
                (''size'', nullish (get_prop args ''size'') (JNum 20))]))
   \<and> switch_name E c ''list_event_sessions'' args =
     with_string E (get_prop args ''eventId'') (\<lambda>s.
       client_get E c (''/admin/events/'' @ s @ ''/sessions'')
         (Some [(''date'', get_prop args ''date''),
                (''stage'', get_prop args ''stage''),
                (''isPublished'', get_prop args ''isPublished'')])))
 \<and> switch_name E c ''reorder_session_performers'' args =
     with_string E (get_prop args ''sessionId'') (\<lambda>s.
       client_put E c (''/admin/sessions/'' @ s @ ''/performers/reorder'')
         (get_prop args ''newOrders''))
 \<and> (switch_name E c ''get_user'' args =
     with_string E (get_prop args ''userId'') (\<lambda>s.
       client_get E c (''/users/'' @ s)
         None)
   \<and> switch_name E c ''delete_user'' args =
     with_string E (get_prop args ''userId'') (\<lambda>s.
       client_delete E c (''/users/'' @ s))
   \<and> switch_name E c ''get_user_communication_preferences'' args =
     with_string E (get_prop args ''userId'') (\<lambda>s.
       client_get E c (''/users/'' @ s @ ''/communication-preferences'')
         None)
   \<and> switch_name E c ''get_campaign'' args =
     with_string E (get_prop args ''campaignId'') (\<lambda>s.
       client_get E c (''/campaigns/'' @ s)
         None)
   \<and> switch_name E c ''delete_campaign'' args =
     with_string E (get_prop args ''campaignId'') (\<lambda>s.
       client_delete E c (''/campaigns/'' @ s))
   \<and> switch_name E c ''send_campaign'' args =
     with_string E (get_prop args ''campaignId'') (\<lambda>s.
       client_post E c (''/campaigns/'' @ s @ ''/send'')
         JUndefined)
   \<and> switch_name E c ''pause_campaign'' args =
     with_string E (get_prop args ''campaignId'') (\<lambda>s.
       client_post E c (''/campaigns/'' @ s @ ''/pause'')
         JUndefined)
   \<and> switch_name E c ''cancel_campaign'' args =
     with_string E (get_prop args ''campaignId'') (\<lambda>s.
       client_post E c (''/campaigns/'' @ s @ ''/cancel'')
         JUndefined)
   \<and> switch_name E c ''get_campaign_metrics'' args =
     with_string E (get_prop args ''campaignId'') (\<lambda>s.
       client_get E c (''/campaigns/'' @ s @ ''/metrics'')
         None)
   \<and> switch_name E c ''duplicate_campaign'' args =
     with_string E (get_prop args ''campaignId'') (\<lambda>s.
       client_post E c (''/campaigns/'' @ s @ ''/duplicate'')
         JUndefined)
   \<and> switch_name E c ''get_segment'' args =
     with_string E (get_prop args ''segmentId'') (\<lambda>s.
       client_get E c (''/segments/'' @ s)
         None)
   \<and> switch_name E c ''delete_segment'' args =
     with_string E (get_prop args ''segmentId'') (\<lambda>s.
       client_delete E c (''/segments/'' @ s))
   \<and> switch_name E c ''execute_segment'' args =
     with_string E (get_prop args ''segmentId'') (\<lambda>s.
       client_post E c (''/segments/'' @ s @ ''/execute'')
         JUndefined)
   \<and> switch_name E c ''get_email_template'' args =
     with_string E (get_prop args ''templateId'') (\<lambda>s.
       client_get E c (''/templates/email/'' @ s)
         None)
   \<and> switch_name E c ''delete_email_template'' args =
     with_string E (get_prop args ''templateId'') (\<lambda>s.
       client_delete E c (''/templates/email/'' @ s))
   \<and> switch_name E c ''render_email_template'' args =
     with_string E (get_prop args ''templateId'') (\<lambda>s.
       client_get E c (''/templates/email/'' @ s @ ''/render'')
         None)
   \<and> switch_name E c ''unlink_performer_from_master'' args =
     with_string E (get_prop args ''performerId'') (\<lambda>s.
       client_post E c (''/admin/performers/'' @ s @ ''/unlink-master'')
         JUndefined)
   \<and> switch_name E c ''delete_performer'' args =
     with_string E (get_prop args ''performerId'') (\<lambda>s.
       client_delete E c (''/admin/performers/'' @ s))
   \<and> switch_name E c ''get_session'' args =
     with_string E (get_prop args ''sessionId'') (\<lambda>s.
       client_get E c (''/admin/sessions/'' @ s)
         None)
   \<and> switch_name E c ''delete_session'' args =
     with_string E (get_prop args ''sessionId'') (\<lambda>s.
       client_delete E c (''/admin/sessions/'' @ s))
   \<and> switch_name E c ''remove_performer_from_session'' args =
     with_string E (get_prop args ''sessionId'') (\<lambda>s1.
       with_string E (get_prop args ''performerId'') (\<lambda>s2.
         client_delete E c (''/admin/sessions/'' @ s1 @ ''/performers/'' @ s2)))
   \<and> switch_name E c ''get_public_lineup'' args =
     with_string E (get_prop args ''eventId'') (\<lambda>s.
       client_get E c (''/public/events/'' @ s @ ''/lineup'')
         None)
   \<and> switch_name E c ''get_admin_lineup'' args =
     with_string E (get_prop args ''eventId'') (\<lambda>s.
       client_get E c (''/admin/events/'' @ s @ ''/lineup'')
         None)
   \<and> switch_name E c ''get_all_daily_lineups'' args =
     with_string E (get_prop args ''eventId'') (\<lambda>s.
       client_get E c (''/events/'' @ s @ ''/daily-lineup'')
         None)
   \<and> switch_name E c ''get_daily_lineup_by_date'' args =
     with_string E (get_prop args ''eventId'') (\<lambda>s1.
       with_string E (get_prop args ''date'') (\<lambda>s2.
         client_get E c (''/events/'' @ s1 @ ''/daily-lineup/'' @ s2)
           None))
   \<and> switch_name E c ''publish_daily_lineup'' args =
     with_string E (get_prop args ''eventId'') (\<lambda>s1.
       with_string E (get_prop args ''date'') (\<lambda>s2.
         client_put E c (''/events/'' @ s1 @ ''/daily-lineup/'' @ s2 @ ''/publish'')
           JUndefined))
   \<and> switch_name E c ''unpublish_daily_lineup'' args =
     with_string E (get_prop args ''eventId'') (\<lambda>s1.
       with_string E (get_prop args ''date'') (\<lambda>s2.
         client_put E c (''/events/'' @ s1 @ ''/daily-lineup/'' @ s2 @ ''/unpublish'')
           JUndefined))
   \<and> switch_name E c ''delete_daily_lineup'' args =
     with_string E (get_prop args ''eventId'') (\<lambda>s1.
       with_string E (get_prop args ''date'') (\<lambda>s2.
         client_delete E c (''/events/'' @ s1 @ ''/daily-lineup/'' @ s2))))
 \<and> (switch_name E c ''create_session'' args =
     with_string E (get_prop args ''eventId'') (\<lambda>s.
       client_post E c (''/admin/events/'' @ s @ ''/sessions'')
         (JObj (obj_set ''eventId'' (get_prop args ''eventId'') (obj_spread [] (rest_without ''eventId'' args)))))
   \<and> switch_name E c ''update_daily_lineup'' args =
     with_string E (get_prop args ''eventId'') (\<lambda>s1.
       with_string E (get_prop args ''date'') (\<lambda>s2.
         client_put E c (''/events/'' @ s1 @ ''/daily-lineup/'' @ s2)
           (JObj [(''date'', get_prop args ''date''),
              (''performerIds'', get_prop args ''performerIds''),
              (''displayOrder'', get_prop args ''displayOrder'')])))
   \<and> ''eventId'' \<in> fst ` set (obj_set ''eventId'' (get_prop args ''eventId'')
                                  (obj_spread [] (rest_without ''eventId'' args)))
   \<and> get_prop (obj_set ''eventId'' (get_prop args ''eventId'')
                (obj_spread [] (rest_without ''eventId'' args))) ''eventId'' =
       get_prop args ''eventId'')"
  by (simp add: sw_rules get_prop_Cons rest_without_keys get_prop_obj_set obj_set_key)

text \<open>
  The claim as stated covers \<open>create_session\<close>: called with \<open>{eventId: 'e1', name: 'Main'}\<close>
  it posts a body that holds \<open>eventId\<close>.
\<close>

theorem path_identifiers_counterexample:
  "map fr_body (snd (handler (server_env (json_response 200 ''OK'' JNull)) example_client
       \<lparr>name = ''create_session'',
        arguments = Some [(''eventId'', JStr ''e1''), (''name'', JStr ''Main'')]\<rparr>)) =
     [Some (''{'' @ dquote ''name'' @ '':'' @ dquote ''Main'' @ '',''
            @ dquote ''eventId'' @ '':'' @ dquote ''e1'' @ ''}'')]
   \<and> map fr_url (snd (handler (server_env (json_response 200 ''OK'' JNull)) example_client
       \<lparr>name = ''create_session'',
        arguments = Some [(''eventId'', JStr ''e1''), (''name'', JStr ''Main'')]\<rparr>)) =
     [''https://api.nevent.io/admin/events/e1/sessions'']"
  by code_simp

theorem path_identifiers_witness:
  "switch_name (server_env (json_response 200 ''OK'' JNull)) example_client ''update_campaign''
      [(''campaignId'', JStr ''c7''), (''subject'', JStr ''Hi'')] =
     client_put (server_env (json_response 200 ''OK'' JNull)) example_client ''/campaigns/c7''
       (JObj [(''subject'', JStr ''Hi'')])
   \<and> ''campaignId'' \<notin> fst ` set [(''subject'', JStr ''Hi'')]"
  using path_identifiers [of "server_env (json_response 200 ''OK'' JNull)" example_client
          "[(''campaignId'', JStr ''c7''), (''subject'', JStr ''Hi'')]" "''campaignId''",
          THEN conjunct1]
  by (simp add: get_prop_Cons rest_without_def with_string_Some)

lemma client_get_url:
  assumes url: "new_URL E (baseUrl c @ p) = Inr u" and b: "bare u"
    and ok: "\<forall>kv \<in> set ps. snd kv \<noteq> JUndefined \<longrightarrow> String_js (snd kv) \<noteq> None"
    and dp: "defined_pairs ps = q # qs"
  shows "map fr_url (snd (client_get E c p (Some ps))) =
           [url_prefix u @ ''?'' @ urlencoded_serialize (q # qs) @ url_hash u]"
proof -
  from ok obtain url' where a: "append_params E u ps = Inr url'"
    using append_params_ok by blast
  then have w: "with_params E u (params \<lparr>body = JUndefined, params = Some ps\<rparr>) = Inr url'"
    by (simp add: with_params_def)
  from append_params_Inr [OF a] b dp
  have "url_toString url' = url_prefix u @ ''?'' @ urlencoded_serialize (q # qs) @ url_hash u"
    by (simp add: url_toString_def bare_def)
  then show ?thesis
    by (simp add: client_get_def response_data_simps request_log [OF url w] fetchOptions_def)
qed

lemma page_default:
  assumes "''page'' \<notin> fst ` set args"
    and "t \<in> set [''list_users'', ''get_user_purchases'', ''get_user_events'', ''list_campaigns'',
                   ''list_segments'', ''list_email_templates'', ''list_performers'',
                   ''get_performer_likes'']"
  shows "switch_name E c t args = switch_name E c t (args @ [(''page'', JNum 0)])"
  using assms
  by (auto simp: sw_rules get_prop_default get_prop_absent get_prop_Cons nullish_def)

lemma size_default:
  assumes "''size'' \<notin> fst ` set args"
    and "t \<in> set [''list_users'', ''get_user_purchases'', ''get_user_events'', ''list_campaigns'',
                   ''list_segments'', ''list_email_templates'', ''list_performers'',
                   ''get_performer_likes'']"
  shows "switch_name E c t args = switch_name E c t (args @ [(''size'', JNum 20)])"
  using assms
  by (auto simp: sw_rules get_prop_default get_prop_absent get_prop_Cons nullish_def)

lemma includeMaster_default:
  assumes "''includeMaster'' \<notin> fst ` set args"
  shows "switch_name E c ''get_performer'' args =
         switch_name E c ''get_performer'' (args @ [(''includeMaster'', JBool False)])"
  using assms
  by (simp add: sw_get_performer get_prop_default get_prop_absent default_param_def)

text \<open>
  Claim C6, amended. The eight paginated tools send \<open>page\<close> and \<open>size\<close>, with \<open>0\<close> in
  place of a \<open>page\<close> that is omitted or \<open>null\<close> and \<open>20\<close> in place of such a \<open>size\<close>, each on
  its own; \<open>get_performer\<close> sends \<open>includeMaster\<close>, with \<open>false\<close> when it is omitted. With
  every optional argument omitted the request goes to the URL of the path followed by
  \<open>?page=0&size=20\<close> and nothing else (also for \<open>list_users\<close> called with no argument
  object), for \<open>get_performer\<close> by \<open>?includeMaster=false\<close>. A call that omits \<open>page\<close> is
  answered exactly as the call with \<open>page = 0\<close> added, a call that omits \<open>size\<close> as the
  call with \<open>size = 20\<close> added, and \<open>get_performer\<close> without \<open>includeMaster\<close> as with
  \<open>includeMaster = false\<close> added. Nothing is said of \<open>overrideData\<close> and \<open>format\<close>.
\<close>

theorem defaults_applied:
  "(switch_name E c ''list_users'' args =
     client_get E c ''/users''
       (Some [(''page'', nullish (get_prop args ''page'') (JNum 0)),
              (''size'', nullish (get_prop args ''size'') (JNum 20)),
              (''sort'', get_prop args ''sort''),
              (''email'', get_prop args ''email''),
              (''name'', get_prop args ''name''),
              (''phone'', get_prop args ''phone''),
              (''createdFrom'', get_prop args ''createdFrom''),
              (''createdTo'', get_prop args ''createdTo''),
              (''eventId'', get_prop args ''eventId''),
              (''listId'', get_prop args ''listId'')])
   \<and> switch_name E c ''get_user_purchases'' args =
     with_string E (get_prop args ''userId'') (\<lambda>s.
       client_get E c (''/users/'' @ s @ ''/purchases'')
         (Some [(''page'', nullish (get_prop args ''page'') (JNum 0)),
                (''size'', nullish (get_prop args ''size'') (JNum 20))]))
   \<and> switch_name E c ''get_user_events'' args =
     with_string E (get_prop args ''userId'') (\<lambda>s.
       client_get E c (''/users/'' @ s @ ''/events'')
         (Some [(''page'', nullish (get_prop args ''page'') (JNum 0)),
                (''size'', nullish (get_prop args ''size'') (JNum 20)),
                (''type'', get_prop args ''type'')]))
   \<and> switch_name E c ''list_campaigns'' args =
     client_get E c ''/campaigns''
       (Some [(''page'', nullish (get_prop args ''page'') (JNum 0)),
              (''size'', nullish (get_prop args ''size'') (JNum 20)),
              (''sort'', get_prop args ''sort''),
              (''type'', get_prop args ''type''),
              (''status'', get_prop args ''status'')])
   \<and> switch_name E c ''list_segments'' args =
     client_get E c ''/segments''
       (Some [(''page'', nullish (get_prop args ''page'') (JNum 0)),
              (''size'', nullish (get_prop args ''size'') (JNum 20)),
              (''sort'', get_prop args ''sort'')])
   \<and> switch_name E c ''list_email_templates'' args =
     client_get E c ''/templates/email''
       (Some [(''page'', nullish (get_prop args ''page'') (JNum 0)),
              (''size'', nullish (get_prop args ''size'') (JNum 20)),
              (''sort'', get_prop args ''sort'')])
   \<and> switch_name E c ''list_performers'' args =
     client_get E c ''/admin/performers''
       (Some [(''page'', nullish (get_prop args ''page'') (JNum 0)),
              (''size'', nullish (get_prop args ''size'') (JNum 20)),
              (''sort'', get_prop args ''sort'')])
   \<and> switch_name E c ''get_performer_likes'' args =
     with_string E (get_prop args ''performerId'') (\<lambda>s.
       client_get E c (''/admin/performers/'' @ s @ ''/likes'')
         (Some [(''page'', nullish (get_prop args ''page'') (JNum 0)),
                (''size'', nullish (get_prop args ''size'') (JNum 20))]))
   \<and> switch_name E c ''get_performer'' args =
     with_string E (get_prop args ''performerId'') (\<lambda>s.
       client_get E c (''/admin/performers/'' @ s)
         (Some [(''includeMaster'', default_param (get_prop args ''includeMaster'') (JBool False))])))
 \<and> ((k \<notin> fst ` set args \<longrightarrow> get_prop args k = JUndefined)
   \<and> nullish JUndefined d = d \<and> nullish JNull d = d \<and> default_param JUndefined d = d)
 \<and> ((\<forall>u. new_URL E (baseUrl c @ ''/users'') = Inr u \<and> bare u
         \<and> omits args [''page'', ''size'', ''sort'', ''email'', ''name'', ''phone'',
                 ''createdFrom'', ''createdTo'', ''eventId'', ''listId''] \<longrightarrow>
       map fr_url (snd (handler E c \<lparr>name = ''list_users'', arguments = Some args\<rparr>)) =
         [url_prefix u @ ''?page=0&size=20'' @ url_hash u])
   \<and> (\<forall>u. new_URL E (baseUrl c @ ''/users'') = Inr u \<and> bare u \<longrightarrow>
       map fr_url (snd (handler E c \<lparr>name = ''list_users'', arguments = None\<rparr>)) =
         [url_prefix u @ ''?page=0&size=20'' @ url_hash u])
   \<and> (\<forall>u. new_URL E (baseUrl c @ ''/campaigns'') = Inr u \<and> bare u
         \<and> omits args [''page'', ''size'', ''sort'', ''type'', ''status''] \<longrightarrow>
       map fr_url (snd (handler E c \<lparr>name = ''list_campaigns'', arguments = Some args\<rparr>)) =
         [url_prefix u @ ''?page=0&size=20'' @ url_hash u])
   \<and> (\<forall>u. new_URL E (baseUrl c @ ''/segments'') = Inr u \<and> bare u
         \<and> omits args [''page'', ''size'', ''sort''] \<longrightarrow>
       map fr_url (snd (handler E c \<lparr>name = ''list_segments'', arguments = Some args\<rparr>)) =
         [url_prefix u @ ''?page=0&size=20'' @ url_hash u])
   \<and> (\<forall>u. new_URL E (baseUrl c @ ''/templates/email'') = Inr u \<and> bare u
         \<and> omits args [''page'', ''size'', ''sort''] \<longrightarrow>
       map fr_url (snd (handler E c \<lparr>name = ''list_email_templates'', arguments = Some args\<rparr>)) =
         [url_prefix u @ ''?page=0&size=20'' @ url_hash u])
   \<and> (\<forall>u. new_URL E (baseUrl c @ ''/admin/performers'') = Inr u \<and> bare u
         \<and> omits args [''page'', ''size'', ''sort''] \<longrightarrow>
       map fr_url (snd (handler E c \<lparr>name = ''list_performers'', arguments = Some args\<rparr>)) =
         [url_prefix u @ ''?page=0&size=20'' @ url_hash u])
   \<and> (\<forall>s u. String_js (get_prop args ''userId'') = Some s
         \<and> new_URL E (baseUrl c @ ''/users/'' @ s @ ''/purchases'') = Inr u \<and> bare u
         \<and> omits args [''page'', ''size''] \<longrightarrow>
       map fr_url (snd (handler E c \<lparr>name = ''get_user_purchases'', arguments = Some args\<rparr>)) =
         [url_prefix u @ ''?page=0&size=20'' @ url_hash u])
   \<and> (\<forall>s u. String_js (get_prop args ''userId'') = Some s
         \<and> new_URL E (baseUrl c @ ''/users/'' @ s @ ''/events'') = Inr u \<and> bare u
         \<and> omits args [''page'', ''size'', ''type''] \<longrightarrow>
       map fr_url (snd (handler E c \<lparr>name = ''get_user_events'', arguments = Some args\<rparr>)) =
         [url_prefix u @ ''?page=0&size=20'' @ url_hash u])
   \<and> (\<forall>s u. String_js (get_prop args ''performerId'') = Some s
         \<and> new_URL E (baseUrl c @ ''/admin/performers/'' @ s @ ''/likes'') = Inr u \<and> bare u
         \<and> omits args [''page'', ''size''] \<longrightarrow>
       map fr_url (snd (handler E c \<lparr>name = ''get_performer_likes'', arguments = Some args\<rparr>)) =
         [url_prefix u @ ''?page=0&size=20'' @ url_hash u])
   \<and> (\<forall>s u. String_js (get_prop args ''performerId'') = Some s
         \<and> new_URL E (baseUrl c @ ''/admin/performers/'' @ s) = Inr u \<and> bare u
         \<and> omits args [''includeMaster''] \<longrightarrow>
       map fr_url (snd (handler E c \<lparr>name = ''get_performer'', arguments = Some args\<rparr>)) =
         [url_prefix u @ ''?includeMaster=false'' @ url_hash u]))
 \<and> ((''page'' \<notin> fst ` set args \<longrightarrow>
      (\<forall>t \<in> set [''list_users'', ''get_user_purchases'', ''get_user_events'', ''list_campaigns'',
                 ''list_segments'', ''list_email_templates'', ''list_performers'',
                 ''get_performer_likes''].
         handler E c \<lparr>name = t, arguments = Some args\<rparr> =
         handler E c \<lparr>name = t, arguments = Some (args @ [(''page'', JNum 0)])\<rparr>))
   \<and> (''size'' \<notin> fst ` set args \<longrightarrow>
      (\<forall>t \<in> set [''list_users'', ''get_user_purchases'', ''get_user_events'', ''list_campaigns'',
                 ''list_segments'', ''list_email_templates'', ''list_performers'',
                 ''get_performer_likes''].
         handler E c \<lparr>name = t, arguments = Some args\<rparr> =
         handler E c \<lparr>name = t, arguments = Some (args @ [(''size'', JNum 20)])\<rparr>))
   \<and> (''includeMaster'' \<notin> fst ` set args \<longrightarrow>
      handler E c \<lparr>name = ''get_performer'', arguments = Some args\<rparr> =
      handler E c \<lparr>name = ''get_performer'',
                   arguments = Some (args @ [(''includeMaster'', JBool False)])\<rparr>))"
  apply (intro conjI)
  subgoal by (simp add: sw_rules get_prop_Cons)
  subgoal by (simp add: sw_rules get_prop_Cons)
  subgoal by (simp add: sw_rules get_prop_Cons)
  subgoal by (simp add: sw_rules get_prop_Cons)
  subgoal by (simp add: sw_rules get_prop_Cons)
  subgoal by (simp add: sw_rules get_prop_Cons)
  subgoal by (simp add: sw_rules get_prop_Cons)
  subgoal by (simp add: sw_rules get_prop_Cons)
  subgoal by (simp add: sw_rules get_prop_Cons)
  subgoal by (simp add: get_prop_absent)
  subgoal by (simp add: nullish_def)
  subgoal by (simp add: nullish_def)
  subgoal by (simp add: default_param_def)
  subgoal
    apply (intro allI impI, elim conjE)
    subgoal premises p for u
    proof -
      let ?ps = "[(''page'', JNum 0), (''size'', JNum 20), (''sort'', JUndefined),
                  (''email'', JUndefined), (''name'', JUndefined), (''phone'', JUndefined),
                  (''createdFrom'', JUndefined), (''createdTo'', JUndefined),
                  (''eventId'', JUndefined), (''listId'', JUndefined)]"
      have sw: "switch_name E c ''list_users'' args = client_get E c ''/users'' (Some ?ps)"
        using p(3) by (simp add: sw_list_users omits_def get_prop_absent get_prop_Nil get_prop_Cons nullish_def)
      have ok: "\<forall>kv \<in> set ?ps. snd kv \<noteq> JUndefined \<longrightarrow> String_js (snd kv) \<noteq> None"
        by simp
      have dp: "defined_pairs ?ps = [(''page'', ''0''), (''size'', ''20'')]" by code_simp
      have ser: "urlencoded_serialize [(''page'', ''0''), (''size'', ''20'')] = ''page=0&size=20''"
        by code_simp
      from client_get_url [OF p(1) p(2) ok dp]
      show ?thesis by (simp add: handler_log_Some sw ser)
    qed
    done
  subgoal
    apply (intro allI impI, elim conjE)
    subgoal premises p for u
    proof -
      let ?ps = "[(''page'', JNum 0), (''size'', JNum 20), (''sort'', JUndefined),
                  (''email'', JUndefined), (''name'', JUndefined), (''phone'', JUndefined),
                  (''createdFrom'', JUndefined), (''createdTo'', JUndefined),
                  (''eventId'', JUndefined), (''listId'', JUndefined)]"
      have sw: "switch_name E c ''list_users'' [] = client_get E c ''/users'' (Some ?ps)"
        by (simp add: sw_list_users omits_def get_prop_absent get_prop_Nil get_prop_Cons nullish_def)
      have ok: "\<forall>kv \<in> set ?ps. snd kv \<noteq> JUndefined \<longrightarrow> String_js (snd kv) \<noteq> None"
        by simp
      have dp: "defined_pairs ?ps = [(''page'', ''0''), (''size'', ''20'')]" by code_simp
      have ser: "urlencoded_serialize [(''page'', ''0''), (''size'', ''20'')] = ''page=0&size=20''"
        by code_simp
      from client_get_url [OF p(1) p(2) ok dp]
      show ?thesis by (simp add: handler_log_None sw ser)
    qed
    done
  subgoal
    apply (intro allI impI, elim conjE)
    subgoal premises p for u
    proof -
      let ?ps = "[(''page'', JNum 0), (''size'', JNum 20), (''sort'', JUndefined),
                  (''type'', JUndefined), (''status'', JUndefined)]"
      have sw: "switch_name E c ''list_campaigns'' args = client_get E c ''/campaigns'' (Some ?ps)"
        using p(3) by (simp add: sw_list_campaigns omits_def get_prop_absent get_prop_Nil get_prop_Cons nullish_def)
      have ok: "\<forall>kv \<in> set ?ps. snd kv \<noteq> JUndefined \<longrightarrow> String_js (snd kv) \<noteq> None"
        by simp
      have dp: "defined_pairs ?ps = [(''page'', ''0''), (''size'', ''20'')]" by code_simp
      have ser: "urlencoded_serialize [(''page'', ''0''), (''size'', ''20'')] = ''page=0&size=20''"
        by code_simp
      from client_get_url [OF p(1) p(2) ok dp]
      show ?thesis by (simp add: handler_log_Some sw ser)
    qed
    done
  subgoal
    apply (intro allI impI, elim conjE)
    subgoal premises p for u
    proof -
      let ?ps = "[(''page'', JNum 0), (''size'', JNum 20), (''sort'', JUndefined)]"
      have sw: "switch_name E c ''list_segments'' args = client_get E c ''/segments'' (Some ?ps)"
        using p(3) by (simp add: sw_list_segments omits_def get_prop_absent get_prop_Nil get_prop_Cons nullish_def)
      have ok: "\<forall>kv \<in> set ?ps. snd kv \<noteq> JUndefined \<longrightarrow> String_js (snd kv) \<noteq> None"
        by simp
      have dp: "defined_pairs ?ps = [(''page'', ''0''), (''size'', ''20'')]" by code_simp
      have ser: "urlencoded_serialize [(''page'', ''0''), (''size'', ''20'')] = ''page=0&size=20''"
        by code_simp
      from client_get_url [OF p(1) p(2) ok dp]
      show ?thesis by (simp add: handler_log_Some sw ser)
    qed
    done
  subgoal
    apply (intro allI impI, elim conjE)
    subgoal premises p for u
    proof -
      let ?ps = "[(''page'', JNum 0), (''size'', JNum 20), (''sort'', JUndefined)]"
      have sw: "switch_name E c ''list_email_templates'' args = client_get E c ''/templates/email'' (Some ?ps)"
        using p(3) by (simp add: sw_list_email_templates omits_def get_prop_absent get_prop_Nil get_prop_Cons nullish_def)
      have ok: "\<forall>kv \<in> set ?ps. snd kv \<noteq> JUndefined \<longrightarrow> String_js (snd kv) \<noteq> None"
        by simp
      have dp: "defined_pairs ?ps = [(''page'', ''0''), (''size'', ''20'')]" by code_simp
      have ser: "urlencoded_serialize [(''page'', ''0''), (''size'', ''20'')] = ''page=0&size=20''"
        by code_simp
      from client_get_url [OF p(1) p(2) ok dp]
      show ?thesis by (simp add: handler_log_Some sw ser)
    qed
    done
  subgoal
    apply (intro allI impI, elim conjE)
    subgoal premises p for u
    proof -
      let ?ps = "[(''page'', JNum 0), (''size'', JNum 20), (''sort'', JUndefined)]"
      have sw: "switch_name E c ''list_performers'' args = client_get E c ''/admin/performers'' (Some ?ps)"
        using p(3) by (simp add: sw_list_performers omits_def get_prop_absent get_prop_Nil get_prop_Cons nullish_def)
      have ok: "\<forall>kv \<in> set ?ps. snd kv \<noteq> JUndefined \<longrightarrow> String_js (snd kv) \<noteq> None"
        by simp
      have dp: "defined_pairs ?ps = [(''page'', ''0''), (''size'', ''20'')]" by code_simp
      have ser: "urlencoded_serialize [(''page'', ''0''), (''size'', ''20'')] = ''page=0&size=20''"
        by code_simp
      from client_get_url [OF p(1) p(2) ok dp]
      show ?thesis by (simp add: handler_log_Some sw ser)
    qed
    done
  subgoal
    apply (intro allI impI, elim conjE)
    subgoal premises p for s u
    proof -
      let ?ps = "[(''page'', JNum 0), (''size'', JNum 20)]"
      have sw: "switch_name E c ''get_user_purchases'' args = client_get E c (''/users/'' @ s @ ''/purchases'') (Some ?ps)"
        using p(1,4) by (simp add: sw_get_user_purchases omits_def get_prop_absent get_prop_Cons nullish_def default_param_def with_string_Some)
      have ok: "\<forall>kv \<in> set ?ps. snd kv \<noteq> JUndefined \<longrightarrow> String_js (snd kv) \<noteq> None"
        by simp
      have dp: "defined_pairs ?ps = [(''page'', ''0''), (''size'', ''20'')]" by code_simp
      have ser: "urlencoded_serialize [(''page'', ''0''), (''size'', ''20'')] = ''page=0&size=20''"
        by code_simp
      from client_get_url [OF p(2) p(3) ok dp]
      show ?thesis by (simp add: handler_log_Some sw ser)
    qed
    done
  subgoal
    apply (intro allI impI, elim conjE)
    subgoal premises p for s u
    proof -
      let ?ps = "[(''page'', JNum 0), (''size'', JNum 20), (''type'', JUndefined)]"
      have sw: "switch_name E c ''get_user_events'' args = client_get E c (''/users/'' @ s @ ''/events'') (Some ?ps)"
        using p(1,4) by (simp add: sw_get_user_events omits_def get_prop_absent get_prop_Cons nullish_def default_param_def with_string_Some)
      have ok: "\<forall>kv \<in> set ?ps. snd kv \<noteq> JUndefined \<longrightarrow> String_js (snd kv) \<noteq> None"
        by simp
      have dp: "defined_pairs ?ps = [(''page'', ''0''), (''size'', ''20'')]" by code_simp
      have ser: "urlencoded_serialize [(''page'', ''0''), (''size'', ''20'')] = ''page=0&size=20''"
        by code_simp
      from client_get_url [OF p(2) p(3) ok dp]
      show ?thesis by (simp add: handler_log_Some sw ser)
    qed
    done
  subgoal
    apply (intro allI impI, elim conjE)
    subgoal premises p for s u
    proof -
      let ?ps = "[(''page'', JNum 0), (''size'', JNum 20)]"
      have sw: "switch_name E c ''get_performer_likes'' args = client_get E c (''/admin/performers/'' @ s @ ''/likes'') (Some ?ps)"
        using p(1,4) by (simp add: sw_get_performer_likes omits_def get_prop_absent get_prop_Cons nullish_def default_param_def with_string_Some)
      have ok: "\<forall>kv \<in> set ?ps. snd kv \<noteq> JUndefined \<longrightarrow> String_js (snd kv) \<noteq> None"
        by simp
      have dp: "defined_pairs ?ps = [(''page'', ''0''), (''size'', ''20'')]" by code_simp
      have ser: "urlencoded_serialize [(''page'', ''0''), (''size'', ''20'')] = ''page=0&size=20''"
        by code_simp
      from client_get_url [OF p(2) p(3) ok dp]
      show ?thesis by (simp add: handler_log_Some sw ser)
    qed
    done
  subgoal
    apply (intro allI impI, elim conjE)
    subgoal premises p for s u
    proof -
      let ?ps = "[(''includeMaster'', JBool False)]"
      have sw: "switch_name E c ''get_performer'' args = client_get E c (''/admin/performers/'' @ s) (Some ?ps)"
        using p(1,4) by (simp add: sw_get_performer omits_def get_prop_absent get_prop_Cons nullish_def default_param_def with_string_Some)
      have ok: "\<forall>kv \<in> set ?ps. snd kv \<noteq> JUndefined \<longrightarrow> String_js (snd kv) \<noteq> None"
        by simp
      have dp: "defined_pairs ?ps = [(''includeMaster'', ''false'')]" by code_simp
      have ser: "urlencoded_serialize [(''includeMaster'', ''false'')] = ''includeMaster=false''"
        by code_simp
      from client_get_url [OF p(2) p(3) ok dp]
      show ?thesis by (simp add: handler_log_Some sw ser)
    qed
    done
  subgoal by (intro impI ballI handler_cong page_default)
  subgoal by (intro impI ballI handler_cong size_default)
  subgoal by (intro impI handler_cong includeMaster_default)
  done

text \<open>
  The claim as stated also promises \<open>format = csv\<close> for the export and
  \<open>overrideData = false\<close>. \<open>export_users\<close> without arguments posts the empty object, and
  with \<open>format: 'csv'\<close> it posts that property; \<open>link_performer_spotify\<close> without
  \<open>overrideData\<close> posts the Spotify identifier alone, and with \<open>overrideData: false\<close> it
  posts both.
\<close>

theorem defaults_applied_counterexample:
  "map fr_body (snd (handler (server_env (json_response 200 ''OK'' JNull)) example_client
       \<lparr>name = ''export_users'', arguments = None\<rparr>)) = [Some ''{}'']
   \<and> map fr_body (snd (handler (server_env (json_response 200 ''OK'' JNull)) example_client
       \<lparr>name = ''export_users'', arguments = Some [(''format'', JStr ''csv'')]\<rparr>)) =
     [Some (''{'' @ dquote ''format'' @ '':'' @ dquote ''csv'' @ ''}'')]
   \<and> map fr_body (snd (handler (server_env (json_response 200 ''OK'' JNull)) example_client
       \<lparr>name = ''link_performer_spotify'',
        arguments = Some [(''performerId'', JStr ''p1''), (''spotifyId'', JStr ''s1'')]\<rparr>)) =
     [Some (''{'' @ dquote ''spotifyId'' @ '':'' @ dquote ''s1'' @ ''}'')]
   \<and> map fr_body (snd (handler (server_env (json_response 200 ''OK'' JNull)) example_client
       \<lparr>name = ''link_performer_spotify'',
        arguments = Some [(''performerId'', JStr ''p1''), (''spotifyId'', JStr ''s1''),
                          (''overrideData'', JBool False)]\<rparr>)) =
     [Some (''{'' @ dquote ''spotifyId'' @ '':'' @ dquote ''s1'' @ '',''
            @ dquote ''overrideData'' @ '':false}'')]"
  by code_simp

theorem defaults_applied_witness:
  "String_js (get_prop [(''userId'', JStr ''u1'')] ''userId'') = Some ''u1''
   \<and> new_URL (server_env (json_response 200 ''OK'' JNull))
        (baseUrl example_client @ ''/users/'' @ ''u1'' @ ''/purchases'') =
       Inr \<lparr>url_prefix = ''https://api.nevent.io/users/u1/purchases'', url_query = None,
            searchParams = [], url_hash = []\<rparr>
   \<and> omits [(''userId'', JStr ''u1'')] [''page'', ''size'']
   \<and> map fr_url (snd (handler (server_env (json_response 200 ''OK'' JNull)) example_client
        \<lparr>name = ''get_user_purchases'', arguments = Some [(''userId'', JStr ''u1'')]\<rparr>)) =
     [''https://api.nevent.io/users/u1/purchases?page=0&size=20'']
   \<and> handler (server_env (json_response 200 ''OK'' JNull)) example_client
        \<lparr>name = ''get_user_purchases'', arguments = Some [(''userId'', JStr ''u1'')]\<rparr> =
     handler (server_env (json_response 200 ''OK'' JNull)) example_client
        \<lparr>name = ''get_user_purchases'',
         arguments = Some [(''userId'', JStr ''u1''), (''page'', JNum 0)]\<rparr>"
proof -
  let ?E = "server_env (json_response 200 ''OK'' JNull)"
  let ?args = "[(''userId'', JStr ''u1'')]"
  let ?u = "\<lparr>url_prefix = ''https://api.nevent.io/users/u1/purchases'', url_query = None,
             searchParams = [], url_hash = []\<rparr>"
  have s: "String_js (get_prop ?args ''userId'') = Some ''u1''" by code_simp
  have u: "new_URL ?E (baseUrl example_client @ ''/users/'' @ ''u1'' @ ''/purchases'') = Inr ?u"
    by code_simp
  have b: "bare ?u" by (simp add: bare_def)
  have om: "omits ?args [''page'', ''size'']" by (simp add: omits_def)
  have h: "''page'' \<notin> fst ` set ?args" by simp
  have t: "''get_user_purchases'' \<in> set [''list_users'', ''get_user_purchases'', ''get_user_events'', ''list_campaigns'',
                ''list_segments'', ''list_email_templates'', ''list_performers'',
                ''get_performer_likes'']"
    by simp
  note T = defaults_applied [of ?E example_client ?args]
  have hyp: "String_js (get_prop ?args ''userId'') = Some ''u1''
      \<and> new_URL ?E (baseUrl example_client @ ''/users/'' @ ''u1'' @ ''/purchases'') = Inr ?u
      \<and> bare ?u \<and> omits ?args [''page'', ''size'']"
    using s u b om by (intro conjI)
  from T [THEN conjunct2, THEN conjunct2, THEN conjunct1, THEN conjunct2, THEN conjunct2, THEN conjunct2, THEN conjunct2, THEN conjunct2, THEN conjunct2, THEN conjunct1, THEN spec, THEN spec, THEN mp, OF hyp]
  have a: "map fr_url (snd (handler ?E example_client
        \<lparr>name = ''get_user_purchases'', arguments = Some ?args\<rparr>)) =
     [url_prefix ?u @ ''?page=0&size=20'' @ url_hash ?u]" .
  from T [THEN conjunct2, THEN conjunct2, THEN conjunct2, THEN conjunct1, THEN mp, OF h, THEN bspec, OF t]
  have d: "handler ?E example_client
        \<lparr>name = ''get_user_purchases'', arguments = Some ?args\<rparr> =
     handler ?E example_client
        \<lparr>name = ''get_user_purchases'', arguments = Some (?args @ [(''page'', JNum 0)])\<rparr>" .
  from a have a': "map fr_url (snd (handler ?E example_client
        \<lparr>name = ''get_user_purchases'', arguments = Some ?args\<rparr>)) =
     [''https://api.nevent.io/users/u1/purchases?page=0&size=20'']"
    by simp
  from d have d': "handler ?E example_client
        \<lparr>name = ''get_user_purchases'', arguments = Some ?args\<rparr> =
     handler ?E example_client
        \<lparr>name = ''get_user_purchases'',
         arguments = Some [(''userId'', JStr ''u1''), (''page'', JNum 0)]\<rparr>"
    by simp
  from s u om a' d' show ?thesis by (intro conjI)
qed

section \<open>Errors at the dispatch boundary\<close>

text \<open>
  Claim C8. For every name that is not a \<open>case\<close> label of the \<open>switch\<close>, the dispatch
  throws the SDK's method-not-found error, whose message contains the name, before any
  request is made; the handler turns it into an error reply and the list of requests
  handed to \<open>fetch\<close> is empty.
\<close>

theorem unknown_tool:
  assumes "nm \<notin> fst ` set switch_cases"
  shows "switch_name E c nm args = (Inl (McpError MethodNotFound (''Unknown tool: '' @ nm)), [])
       \<and> includes_js (''Unknown tool: '' @ nm) nm
       \<and> handler E c \<lparr>name = nm, arguments = a\<rparr> =
           (Inr \<lparr>content = [\<lparr>item_type = ''text'',
                               item_text = Some (''Error: '' @ McpError_message E MethodNotFound
                                                                 (''Unknown tool: '' @ nm))\<rparr>],
                 isError = Some True\<rparr>, [])"
proof (intro conjI)
  show sw: "switch_name E c nm args = (Inl (McpError MethodNotFound (''Unknown tool: '' @ nm)), [])"
    for args using assms by (rule switch_unregistered)
  show "includes_js (''Unknown tool: '' @ nm) nm" by (rule includes_js_suffix)
  show "handler E c \<lparr>name = nm, arguments = a\<rparr> =
          (Inr \<lparr>content = [\<lparr>item_type = ''text'',
                              item_text = Some (''Error: '' @ McpError_message E MethodNotFound
                                                                (''Unknown tool: '' @ nm))\<rparr>],
                isError = Some True\<rparr>, [])"
    by (simp add: handler_def Let_def sw catch_message_def)
qed

theorem unknown_tool_witness:
  "''drop_all_users'' \<notin> fst ` set switch_cases
   \<and> handler (server_env (json_response 200 ''OK'' JNull)) example_client
        \<lparr>name = ''drop_all_users'', arguments = None\<rparr> =
       (Inr \<lparr>content = [\<lparr>item_type = ''text'',
                           item_text = Some ''Error: MCP error -32601: Unknown tool: drop_all_users''\<rparr>],
             isError = Some True\<rparr>, [])"
proof -
  have h: "''drop_all_users'' \<notin> fst ` set switch_cases" by code_simp
  from unknown_tool [OF h, of "server_env (json_response 200 ''OK'' JNull)" example_client,
      THEN conjunct2, THEN conjunct2]
  have "handler (server_env (json_response 200 ''OK'' JNull)) example_client
          \<lparr>name = ''drop_all_users'', arguments = None\<rparr> =
        (Inr \<lparr>content = [\<lparr>item_type = ''text'',
             item_text = Some (''Error: '' @ McpError_message (server_env (json_response 200 ''OK'' JNull))
                                  MethodNotFound (''Unknown tool: '' @ ''drop_all_users''))\<rparr>],
             isError = Some True\<rparr>, [])" .
  with h show ?thesis by (simp add: server_env_def)
qed





text \<open>
  Claim C9. The tool \<open>update_user\<close> called with \<open>{userId: 'u1', name: 'Ann'}\<close> calls the
  client's \<open>put\<close> with the path \<open>/users/u1\<close> and the body \<open>{name: 'Ann'}\<close>, which has no
  property \<open>userId\<close>; the one request handed to \<open>fetch\<close> has the method PUT, the URL
  parsed from base URL and that path, and the payload is the JSON text of that body.
\<close>

theorem update_user_example:
  assumes "new_URL E (baseUrl c @ ''/users/u1'') = Inr u"
  shows "switch_name E c ''update_user'' [(''userId'', JStr ''u1''), (''name'', JStr ''Ann'')] =
           client_put E c ''/users/u1'' (JObj [(''name'', JStr ''Ann'')])
       \<and> ''userId'' \<notin> fst ` set [(''name'', JStr ''Ann'')]
       \<and> snd (handler E c \<lparr>name = ''update_user'',
               arguments = Some [(''userId'', JStr ''u1''), (''name'', JStr ''Ann'')]\<rparr>) =
           [\<lparr>fr_url = url_toString u, fr_method = ''PUT'', fr_headers = request_headers c,
             fr_body = Some (''{'' @ dquote ''name'' @ '':'' @ dquote ''Ann'' @ ''}'')\<rparr>]"
proof -
  have sw: "switch_name E c ''update_user'' [(''userId'', JStr ''u1''), (''name'', JStr ''Ann'')] =
              client_put E c ''/users/u1'' (JObj [(''name'', JStr ''Ann'')])"
    by (simp add: sw_update_user get_prop_Cons rest_without_def with_string_Some)
  have js: "JSON_stringify (JObj [(''name'', JStr ''Ann'')]) =
              Some (''{'' @ dquote ''name'' @ '':'' @ dquote ''Ann'' @ ''}'')"
    by code_simp
  have w: "with_params E u (params \<lparr>body = JObj [(''name'', JStr ''Ann'')], params = None\<rparr>) = Inr u"
    by (simp add: with_params_def)
  have "snd (client_put E c ''/users/u1'' (JObj [(''name'', JStr ''Ann'')])) =
          [\<lparr>fr_url = url_toString u, fr_method = ''PUT'', fr_headers = request_headers c,
            fr_body = Some (''{'' @ dquote ''name'' @ '':'' @ dquote ''Ann'' @ ''}'')\<rparr>]"
    using request_log [OF assms w, of "''PUT''"]
    by (simp add: client_put_def response_data_simps fetchOptions_def js)
  with sw show ?thesis by (simp add: handler_log)
qed

theorem update_user_example_witness:
  "new_URL (server_env (json_response 200 ''OK'' (JObj [(''id'', JStr ''u1'')])))
       (baseUrl example_client @ ''/users/u1'') =
     Inr \<lparr>url_prefix = ''https://api.nevent.io/users/u1'', url_query = None, searchParams = [],
          url_hash = []\<rparr>
   \<and> snd (handler (server_env (json_response 200 ''OK'' (JObj [(''id'', JStr ''u1'')])))
          example_client
          \<lparr>name = ''update_user'',
           arguments = Some [(''userId'', JStr ''u1''), (''name'', JStr ''Ann'')]\<rparr>) =
       [\<lparr>fr_url = ''https://api.nevent.io/users/u1'', fr_method = ''PUT'',
         fr_headers = [(''Authorization'', ''Bearer jwt''), (''Content-Type'', ''application/json'')],
         fr_body = Some (''{'' @ dquote ''name'' @ '':'' @ dquote ''Ann'' @ ''}'')\<rparr>]"
proof -
  let ?E = "server_env (json_response 200 ''OK'' (JObj [(''id'', JStr ''u1'')]))"
  let ?u = "\<lparr>url_prefix = ''https://api.nevent.io/users/u1'', url_query = None,
             searchParams = [], url_hash = []\<rparr>"
  have u: "new_URL ?E (baseUrl example_client @ ''/users/u1'') = Inr ?u" by code_simp
  have t: "url_toString ?u = ''https://api.nevent.io/users/u1''" by code_simp
  have h: "request_headers example_client =
             [(''Authorization'', ''Bearer jwt''), (''Content-Type'', ''application/json'')]"
    by code_simp
  from update_user_example [OF u, THEN conjunct2, THEN conjunct2]
  have "snd (handler ?E example_client \<lparr>name = ''update_user'',
               arguments = Some [(''userId'', JStr ''u1''), (''name'', JStr ''Ann'')]\<rparr>) =
           [\<lparr>fr_url = url_toString ?u, fr_method = ''PUT'',
             fr_headers = request_headers example_client,
             fr_body = Some (''{'' @ dquote ''name'' @ '':'' @ dquote ''Ann'' @ ''}'')\<rparr>]" .
  with u t h show ?thesis by simp
qed

text \<open>
  Claim C10. The function \<open>resumeCampaign\<close> posts to \<open>/campaigns/{id}/resume\<close>, but the
  name \<open>resume_campaign\<close> is neither in the catalog nor a \<open>case\<close> label, so a call-tool
  request of that name gets the unknown-tool error reply and no request is handed to
  \<open>fetch\<close>.
\<close>

theorem resume_campaign_unreachable:
  "resumeCampaign E c campaignId =
     with_string E campaignId (\<lambda>s. client_post E c (''/campaigns/'' @ s @ ''/resume'') JUndefined)
   \<and> (\<forall>s. String_js campaignId = Some s \<longrightarrow>
         resumeCampaign E c campaignId =
           client_post E c (''/campaigns/'' @ s @ ''/resume'') JUndefined)
   \<and> ''resume_campaign'' \<notin> set allToolDefinitions
   \<and> map_of switch_cases ''resume_campaign'' = None
   \<and> handler E c \<lparr>name = ''resume_campaign'', arguments = a\<rparr> =
       (Inr \<lparr>content = [\<lparr>item_type = ''text'',
                           item_text = Some (''Error: '' @ McpError_message E MethodNotFound
                                                             ''Unknown tool: resume_campaign'')\<rparr>],
             isError = Some True\<rparr>, [])"
proof -
  have cat: "''resume_campaign'' \<notin> set allToolDefinitions" by code_simp
  have sw: "map_of switch_cases ''resume_campaign'' = None"
    by (simp only: lookup_rules)
  have "handler E c \<lparr>name = ''resume_campaign'', arguments = a\<rparr> =
       (Inr \<lparr>content = [\<lparr>item_type = ''text'',
                           item_text = Some (''Error: '' @ McpError_message E MethodNotFound
                                                             ''Unknown tool: resume_campaign'')\<rparr>],
             isError = Some True\<rparr>, [])"
    by (simp add: handler_def Let_def switch_name_def sw catch_message_def)
  with cat sw show ?thesis by (simp add: resumeCampaign_def with_string_Some)
qed

theorem resume_campaign_unreachable_witness:
  "String_js (JStr ''c1'') = Some ''c1''
   \<and> resumeCampaign (server_env (json_response 200 ''OK'' JNull)) example_client (JStr ''c1'') =
       client_post (server_env (json_response 200 ''OK'' JNull)) example_client
         ''/campaigns/c1/resume'' JUndefined
   \<and> handler (server_env (json_response 200 ''OK'' JNull)) example_client
       \<lparr>name = ''resume_campaign'', arguments = Some [(''campaignId'', JStr ''c1'')]\<rparr> =
     (Inr \<lparr>content = [\<lparr>item_type = ''text'',
                         item_text = Some ''Error: MCP error -32601: Unknown tool: resume_campaign''\<rparr>],
           isError = Some True\<rparr>, [])"
proof -
  let ?E = "server_env (json_response 200 ''OK'' JNull)"
  note T = resume_campaign_unreachable
             [of ?E example_client "JStr ''c1''" "Some [(''campaignId'', JStr ''c1'')]"]
  have s: "String_js (JStr ''c1'') = Some ''c1''" by simp
  from T [THEN conjunct2, THEN conjunct1, THEN spec, THEN mp, OF s]
  have a: "resumeCampaign ?E example_client (JStr ''c1'') =
             client_post ?E example_client (''/campaigns/'' @ ''c1'' @ ''/resume'') JUndefined" .
  from T [THEN conjunct2, THEN conjunct2, THEN conjunct2, THEN conjunct2]
  have b: "handler ?E example_client
             \<lparr>name = ''resume_campaign'', arguments = Some [(''campaignId'', JStr ''c1'')]\<rparr> =
           (Inr \<lparr>content = [\<lparr>item_type = ''text'',
                     item_text = Some (''Error: '' @ McpError_message ?E MethodNotFound
                                                       ''Unknown tool: resume_campaign'')\<rparr>],
                 isError = Some True\<rparr>, [])" .
  from a have a': "resumeCampaign ?E example_client (JStr ''c1'') =
             client_post ?E example_client ''/campaigns/c1/resume'' JUndefined"
    by simp
  from b have b': "handler ?E example_client
             \<lparr>name = ''resume_campaign'', arguments = Some [(''campaignId'', JStr ''c1'')]\<rparr> =
           (Inr \<lparr>content = [\<lparr>item_type = ''text'',
                     item_text = Some ''Error: MCP error -32601: Unknown tool: resume_campaign''\<rparr>],
                 isError = Some True\<rparr>, [])"
    by (simp add: server_env_def)
  from s a' b' show ?thesis by (intro conjI)
qed

end
